theory Spec2Isabelle
  imports Main
begin

section \<open>Strings of the command parser (\<^verbatim>\<open>bot/src/listeners.ts\<close>)\<close>

text \<open>
  A JavaScript string is modelled as a \<^typ>\<open>string\<close> of ASCII characters. The string
  methods the parser calls are written out with their JavaScript behaviour on such
  strings: \<^verbatim>\<open>slice\<close> with negative indices counted from the end, \<^verbatim>\<open>indexOf\<close>
  answering \<open>-1\<close> when the character is absent, \<^verbatim>\<open>trim\<close> removing white space at
  both ends, \<^verbatim>\<open>toUpperCase\<close> mapping \<open>a..z\<close> to \<open>A..Z\<close>.
\<close>

definition ascii :: "char \<Rightarrow> bool" where
  "ascii c = ((of_char c :: nat) < 128)"

definition clampIndex :: "nat \<Rightarrow> int \<Rightarrow> nat" where
  "clampIndex n i = (if i < 0 then nat (max (int n + i) 0) else min (nat i) n)"

definition slice :: "string \<Rightarrow> int \<Rightarrow> int \<Rightarrow> string" where
  "slice s b e =
     (let from = clampIndex (length s) b; upto = clampIndex (length s) e
      in take (upto - from) (drop from s))"

definition sliceFrom :: "string \<Rightarrow> int \<Rightarrow> string" where
  "sliceFrom s b = drop (clampIndex (length s) b) s"

fun indexOf :: "string \<Rightarrow> char \<Rightarrow> int" where
  "indexOf [] c = -1"
| "indexOf (x # xs) c =
     (if x = c then 0 else (let i = indexOf xs c in if i < 0 then -1 else i + 1))"

definition isWhiteSpace :: "char \<Rightarrow> bool" where
  "isWhiteSpace c = ((of_char c :: nat) \<in> {9, 10, 11, 12, 13, 32})"

definition trimStart :: "string \<Rightarrow> string" where
  "trimStart s = dropWhile isWhiteSpace s"

definition trimEnd :: "string \<Rightarrow> string" where
  "trimEnd s = rev (dropWhile isWhiteSpace (rev s))"

definition trim :: "string \<Rightarrow> string" where
  "trim s = trimEnd (trimStart s)"

definition upperChar :: "char \<Rightarrow> char" where
  "upperChar c =
     (let n = (of_char c :: nat) in if 97 \<le> n \<and> n \<le> 122 then char_of (n - 32) else c)"

definition toUpperCase :: "string \<Rightarrow> string" where
  "toUpperCase s = map upperChar s"

definition startsWith :: "string \<Rightarrow> string \<Rightarrow> bool" where
  "startsWith s p = (take (length p) s = p)"

section \<open>The command parser\<close>

definition COMMAND_PREFIX :: string where
  "COMMAND_PREFIX = ''!amongus ''"

definition V2 :: string where
  "V2 = ''QWXRTYLPESDFGHUJKZOCVBINMA''"

text \<open>
  Modelled from the spec: the enum \<^verbatim>\<open>LobbyRegion\<close> of \<^verbatim>\<open>./constants\<close> is not among
  the sources. The spec names the three lobby regions (Europe, North America, Asia)
  and has the tokens of each accepted, so each member is a value that passes the
  parser's test \<^verbatim>\<open>if (!region)\<close>.
\<close>

datatype LobbyRegion = ASIA | EUROPE | NORTH_AMERICA

text \<open>
  What a rejected promise or a \<^verbatim>\<open>throw\<close> carries: the parser throws strings, the
  chat platform rejects a request with an error of its own, and reading a property of
  the \<^verbatim>\<open>undefined\<close> that an unsuccessful \<^verbatim>\<open>find(...)!\<close> leaves is a TypeError.
\<close>

datatype error = Thrown string | Rejected string | TypeError

definition validateLobbyCode :: "string \<Rightarrow> error + string" where
  "validateLobbyCode code0 =
     (let code = toUpperCase (trim code0)
      in if length code \<noteq> 6
         then Inl (Thrown ''Invalid lobby code. The lobby code must be exactly 6 letters.'')
         else if list_ex (\<lambda>x. x \<notin> set V2) code
         then Inl (Thrown ''Invalid lobby code. The lobby code contains invalid characters.'')
         else Inr code)"

definition parseCommandInvocation :: "string \<Rightarrow> error + (LobbyRegion \<times> string)" where
  "parseCommandInvocation msg0 =
     (let msg = sliceFrom msg0 (int (length COMMAND_PREFIX));
          region = None;
          nextWord = slice msg 0 (indexOf msg (CHR '' ''));
          (region, msg) =
            (if nextWord = ''asia'' \<or> nextWord = ''as''
             then (Some ASIA, sliceFrom msg (int (length nextWord)))
             else (region, msg));
          (region, msg) =
            (if nextWord = ''eu'' \<or> nextWord = ''europe''
             then (Some EUROPE, sliceFrom msg (int (length nextWord)))
             else (region, msg));
          (region, msg) =
            (if nextWord = ''us'' \<or> nextWord = ''usa'' \<or> nextWord = ''na''
                \<or> nextWord = ''america'' \<or> nextWord = ''northamerica''
             then (Some NORTH_AMERICA, sliceFrom msg (int (length nextWord)))
             else (region, msg));
          (region, msg) =
            (if nextWord = ''north''
             then (let msg = trim (sliceFrom msg (int (length nextWord)));
                       nextNextWord = slice msg 0 (indexOf msg (CHR '' ''))
                   in if nextNextWord = ''america''
                      then (Some NORTH_AMERICA, sliceFrom msg (int (length nextNextWord)))
                      else (region, msg))
             else (region, msg))
      in case region of
           None \<Rightarrow>
             Inl (Thrown (''Could not determine the region of the lobby. Try doing `''
                    @ COMMAND_PREFIX @ ''na ABCDEF` or `'' @ COMMAND_PREFIX
                    @ ''europe GHIJKL`.''))
         | Some r \<Rightarrow>
             (case validateLobbyCode msg of
                Inl e \<Rightarrow> Inl e
              | Inr code \<Rightarrow> Inr (r, code)))"

section \<open>Sessions, channels and the chat platform\<close>

text \<open>
  Modelled from the spec: the enum \<^verbatim>\<open>SessionState\<close> of \<^verbatim>\<open>./constants\<close> and the
  entities of \<^verbatim>\<open>./database\<close> are not among the sources. The spec lists the states
  LOBBY, PLAYING, DISCUSSING and the terminal ENDED, the channel roles CATEGORY,
  TALKING, SILENCE and ADMIN_SILENCE, and calls SILENCE and ADMIN_SILENCE the
  silence-typed channels (the constant \<^verbatim>\<open>SILENCE_CHANNELS\<close>). The fields of the two
  entities are the ones the sources read and write.
\<close>

datatype SessionState = LOBBY | PLAYING | DISCUSSING | ENDED

datatype SessionChannelType = CATEGORY | TALKING | SILENCE | ADMIN_SILENCE

definition SILENCE_CHANNELS :: "SessionChannelType list" where
  "SILENCE_CHANNELS = [SILENCE, ADMIN_SILENCE]"

record SessionChannel =
  channelId :: string
  type :: SessionChannelType
  invite :: "string option"

record AmongUsSession =
  guild :: string
  channel :: string
  message :: string
  user :: string
  state :: SessionState
  region :: LobbyRegion
  lobbyCode :: string
  channels :: "SessionChannel list"

text \<open>The requests the bot sends to the chat platform, with the arguments it passes.\<close>

record embed =
  color :: nat
  title :: "string option"
  description :: string
  footer :: "(string \<times> string) option"

datatype content = Text string | Embed embed

datatype permission = voiceSpeak | readMessages

record overwrite =
  overwriteType :: string
  overwriteId :: string
  deny :: "permission list"
  allow :: nat

datatype call =
    DeleteChannel string string
  | EditGuildMember string string string
  | CreateMessage string content
  | CreateChannel string string nat string "overwrite list"
  | EditMessage string string embed

text \<open>
  The world the handlers run in: the module-level map \<^verbatim>\<open>VOICE_CHANNEL_USERS\<close>, the
  sessions the database holds, every request sent to the platform so far (in the order
  sent), the platform itself (which requests it rejects, with the text of the error,
  how many objects it has created, the identifier it gives to the next ones, and, of
  the rejections of requests that are under way together, listed in the order of the
  requests, the position of the one whose reply arrives first), and the lines written
  to the console.
\<close>

record world =
  VOICE_CHANNEL_USERS :: "string \<rightharpoonup> string list"
  sessions :: "AmongUsSession list"
  requests :: "call list"
  rejects :: "call \<Rightarrow> string option"
  created :: nat
  freshId :: "nat \<Rightarrow> string"
  firstReply :: "error list \<Rightarrow> nat"
  console :: "string list"

type_synonym 'a promise = "world \<Rightarrow> (error + 'a) \<times> world"

definition resolve :: "'a \<Rightarrow> 'a promise" where
  "resolve x w = (Inr x, w)"

definition reject :: "error \<Rightarrow> 'a promise" where
  "reject e w = (Inl e, w)"

definition await :: "'a promise \<Rightarrow> ('a \<Rightarrow> 'b promise) \<Rightarrow> 'b promise" where
  "await p k w = (case p w of (Inl e, w') \<Rightarrow> (Inl e, w') | (Inr x, w') \<Rightarrow> k x w')"

text \<open>
  A request that changes or deletes something, and one that creates a message or a
  channel: the platform answers the latter with the object created, of which the bot
  reads the identifier at most.
\<close>

definition request :: "call \<Rightarrow> unit promise" where
  "request c w =
     (case rejects w c of
        Some err \<Rightarrow> (Inl (Rejected err), w\<lparr>requests := requests w @ [c]\<rparr>)
      | None \<Rightarrow> (Inr (), w\<lparr>requests := requests w @ [c]\<rparr>))"

definition create :: "call \<Rightarrow> string promise" where
  "create c w =
     (case rejects w c of
        Some err \<Rightarrow> (Inl (Rejected err), w\<lparr>requests := requests w @ [c]\<rparr>)
      | None \<Rightarrow>
          (Inr (freshId w (created w)),
           w\<lparr>requests := requests w @ [c], created := Suc (created w)\<rparr>))"

text \<open>A \<^verbatim>\<open>for\<close> loop that awaits its body.\<close>

fun forEach :: "'a list \<Rightarrow> ('a \<Rightarrow> unit promise) \<Rightarrow> unit promise" where
  "forEach [] body w = (Inr (), w)"
| "forEach (x # xs) body w =
     (case body x w of
        (Inl e, w') \<Rightarrow> (Inl e, w')
      | (Inr u, w') \<Rightarrow> forEach xs body w')"

text \<open>
  \<^verbatim>\<open>Promise.all(xs.map(f))\<close>: \<^verbatim>\<open>map\<close> starts every operation, so all of them are sent
  whatever becomes of the others. The result is resolved when all of them are, and is
  rejected otherwise with the rejection whose reply arrives first, which is for the
  platform to say and need not be the first in the order of the requests.
\<close>

fun settleAll :: "unit promise list \<Rightarrow> world \<Rightarrow> (error + unit) list \<times> world" where
  "settleAll [] w = ([], w)"
| "settleAll (p # ps) w =
     (case p w of
        (r, w') \<Rightarrow> (case settleAll ps w' of (rs, w'') \<Rightarrow> (r # rs, w'')))"

definition rejections :: "(error + unit) list \<Rightarrow> error list" where
  "rejections rs = List.map_filter (\<lambda>r. case r of Inl e \<Rightarrow> Some e | Inr u \<Rightarrow> None) rs"

definition promiseAll :: "unit promise list \<Rightarrow> unit promise" where
  "promiseAll ps w =
     (case settleAll ps w of
        (rs, w') \<Rightarrow>
          ((case rejections rs of
              [] \<Rightarrow> Inr ()
            | e # es \<Rightarrow> Inl ((e # es) ! (firstReply w (e # es) mod length (e # es)))),
           w'))"

definition tryCatch :: "'a promise \<Rightarrow> (error \<Rightarrow> 'a promise) \<Rightarrow> 'a promise" where
  "tryCatch p handler w = (case p w of (Inl e, w') \<Rightarrow> handler e w' | (Inr x, w') \<Rightarrow> (Inr x, w'))"

text \<open>
  The text of an error inside a template string. A thrown string is printed as it is,
  a rejection with the platform's text; the engine's sentence for a TypeError is
  shortened to its name (no path of the sources prints one).
\<close>

fun errorText :: "error \<Rightarrow> string" where
  "errorText (Thrown s) = s"
| "errorText (Rejected s) = s"
| "errorText TypeError = ''TypeError''"

section \<open>The membership index and the voice handlers (\<^verbatim>\<open>bot/src/listeners.ts\<close>)\<close>

record Member =
  memberId :: string
  memberGuild :: string

definition getMembersInChannel :: "world \<Rightarrow> string \<Rightarrow> string list" where
  "getMembersInChannel w ch = (case VOICE_CHANNEL_USERS w ch of None \<Rightarrow> [] | Some users \<Rightarrow> users)"

text \<open>
  \<^verbatim>\<open>orm.em.findOne(SessionChannel, {channelId, type: TALKING}, ["session"])\<close>: a
  channel of a stored session with this identifier and the role TALKING, together with
  its session.
\<close>

definition findTalking :: "world \<Rightarrow> string \<Rightarrow> (SessionChannel \<times> AmongUsSession) option" where
  "findTalking w ch =
     find (\<lambda>(c, s). channelId c = ch \<and> type c = TALKING)
       (concat (map (\<lambda>s. map (\<lambda>c. (c, s)) (channels s)) (sessions w)))"

definition onVoiceJoin :: "Member \<Rightarrow> string \<Rightarrow> unit promise" where
  "onVoiceJoin member newChannel w =
     (let w1 = w\<lparr>VOICE_CHANNEL_USERS :=
                  (VOICE_CHANNEL_USERS w)
                    (newChannel \<mapsto> getMembersInChannel w newChannel @ [memberId member])\<rparr>
      in case findTalking w1 newChannel of
           None \<Rightarrow> (Inr (), w1)
         | Some (relevantChannel, session) \<Rightarrow>
             if state session = PLAYING
             then (case find (\<lambda>x. type x = SILENCE) (channels session) of
                     None \<Rightarrow> (Inl TypeError, w1)
                   | Some playingChannel \<Rightarrow>
                       request (EditGuildMember (memberGuild member) (memberId member)
                                  (channelId playingChannel)) w1)
             else (Inr (), w1))"

definition onVoiceLeave :: "Member \<Rightarrow> string \<Rightarrow> unit promise" where
  "onVoiceLeave member oldChannel w =
     (case VOICE_CHANNEL_USERS w oldChannel of
        None \<Rightarrow> (Inr (), w)
      | Some users \<Rightarrow>
          if memberId member \<notin> set users then (Inr (), w)
          else (Inr (), w\<lparr>VOICE_CHANNEL_USERS :=
                             (VOICE_CHANNEL_USERS w)
                               (oldChannel \<mapsto> remove1 (memberId member) users)\<rparr>))"

definition onVoiceChange :: "Member \<Rightarrow> string \<Rightarrow> string \<Rightarrow> unit promise" where
  "onVoiceChange member newChannel oldChannel =
     await (onVoiceLeave member oldChannel) (\<lambda>_. onVoiceJoin member newChannel)"

text \<open>
  The voice notifications of the platform, and the index after a sequence of them.
  Each notification runs its handler on its own: a handler that is rejected does not
  keep the later ones from running.
\<close>

datatype event =
    Join Member string
  | Leave Member string
  | Change Member string string

fun handle :: "event \<Rightarrow> unit promise" where
  "handle (Join member newChannel) = onVoiceJoin member newChannel"
| "handle (Leave member oldChannel) = onVoiceLeave member oldChannel"
| "handle (Change member newChannel oldChannel) = onVoiceChange member newChannel oldChannel"

fun dispatch :: "event list \<Rightarrow> world \<Rightarrow> world" where
  "dispatch [] w = w"
| "dispatch (e # es) w = dispatch es (snd (handle e w))"

section \<open>The actions (\<^verbatim>\<open>actions.ts\<close>)\<close>

definition LOADING :: nat where "LOADING = 0x36393f"
definition INFO :: nat where "INFO = 0x0a96de"
definition ERROR :: nat where "ERROR = 0xfd5c5c"
definition WARN :: nat where "WARN = 0xed872d"

text \<open>The die of the titles (U+1F3B2), as its four bytes in UTF-8.\<close>

definition die :: string where
  "die = [CHR 0xF0, CHR 0x9F, CHR 0x8E, CHR 0xB2]"

record Message =
  content :: string
  authorId :: string
  authorBot :: bool
  authorUsername :: string
  inTextChannel :: bool
  messageChannel :: string
  messageGuild :: string

text \<open>
  The text of a region inside a template string is a value of the enum that is not
  among the sources: the functions that print a region take it as \<open>regionText\<close>.
\<close>

definition createEmptyNewSession ::
  "(LobbyRegion \<Rightarrow> string) \<Rightarrow> Message \<Rightarrow> LobbyRegion \<Rightarrow> string \<Rightarrow> AmongUsSession promise" where
  "createEmptyNewSession regionText msg region0 code =
     await (create (CreateMessage (messageChannel msg)
              (Embed \<lparr>color = LOADING, title = None,
                 description = ''<a:loading:572067799535452171> Attempting to connect to lobby `''
                    @ code @ ''` on '' @ regionText region0 @ ''...'',
                 footer = None\<rparr>)))
       (\<lambda>messageId w.
          (let session = \<lparr>guild = messageGuild msg, channel = messageChannel msg,
                 message = messageId, user = authorUsername msg, state = LOBBY,
                 region = region0, lobbyCode = code, channels = []\<rparr>
           in (Inr session, w\<lparr>sessions := sessions w @ [session]\<rparr>)))"

definition updateMessageWithError :: "AmongUsSession \<Rightarrow> string \<Rightarrow> unit promise" where
  "updateMessageWithError session err =
     request (EditMessage (channel session) (message session)
       \<lparr>color = ERROR, title = Some (die @ '' Among Us - Error''),
        description = err, footer = None\<rparr>)"

definition updateMessageWithSessionOver :: "AmongUsSession \<Rightarrow> unit promise" where
  "updateMessageWithSessionOver session =
     request (EditMessage (channel session) (message session)
       \<lparr>color = ERROR, title = Some (die @ '' Among Us - Session Over''),
        description = user session
          @ '' was hosting a game of [Among Us](http://www.innersloth.com/gameAmongUs.php) here, but the lobby closed.'',
        footer = None\<rparr>)"

definition staleEmbed :: "AmongUsSession \<Rightarrow> embed" where
  "staleEmbed session =
     \<lparr>color = ERROR, title = Some (die @ '' Among Us - Session Over''),
      description = user session
        @ '' was hosting a game of [Among Us](http://www.innersloth.com/gameAmongUs.php) here, but an unexpected error happened. Try again in a bit?'',
      footer = None\<rparr>"

definition updateMessageWithSessionStale :: "AmongUsSession \<Rightarrow> unit promise" where
  "updateMessageWithSessionStale session =
     request (EditMessage (channel session) (message session) (staleEmbed session))"

definition cleanUpSession :: "AmongUsSession \<Rightarrow> unit promise" where
  "cleanUpSession session =
     await (forEach (channels session)
              (\<lambda>channel. request (DeleteChannel (channelId channel) ''Among Us: Session is over.'')))
       (\<lambda>_. await (updateMessageWithSessionStale session)
          (\<lambda>_ w. (Inr (), w\<lparr>sessions := remove1 session (sessions w)\<rparr>)))"

definition cleanUpOldSessions :: "unit promise" where
  "cleanUpOldSessions w = forEach (sessions w) cleanUpSession w"

definition moveAllPlayers :: "AmongUsSession \<Rightarrow> string \<Rightarrow> string \<Rightarrow> unit promise" where
  "moveAllPlayers session idFrom idTo w =
     promiseAll
       (map (\<lambda>x. request (EditGuildMember (guild session) x idTo)) (getMembersInChannel w idFrom))
       w"

definition movePlayersToTalkingChannel :: "AmongUsSession \<Rightarrow> unit promise" where
  "movePlayersToTalkingChannel session =
     (let talkingChannel = find (\<lambda>x. type x = TALKING) (channels session);
          silenceChannels = filter (\<lambda>x. type x \<in> set SILENCE_CHANNELS) (channels session)
      in case talkingChannel of
           None \<Rightarrow> (if silenceChannels = [] then resolve () else reject TypeError)
         | Some talking \<Rightarrow>
             promiseAll
               (map (\<lambda>x. moveAllPlayers session (channelId x) (channelId talking)) silenceChannels))"

definition adminNotice :: "string \<Rightarrow> string" where
  "adminNotice adminId =
     ''<@!'' @ adminId @ ''>, since you'' @ [CHR 0x27]
       @ ''re an administrator I won'' @ [CHR 0x27]
       @ ''t be able to mute you. Instead, you'' @ [CHR 0x27]
       @ ''re getting your own channel.''"

text \<open>
  The loop of \<^verbatim>\<open>movePlayersToSilenceChannel\<close> over the administrators in the talking
  channel. It pops the last of the empty administrator channels while there is one and
  creates a channel otherwise; it changes \<^verbatim>\<open>emptyAdminChannels\<close> and
  \<^verbatim>\<open>session.channels\<close>, so both are passed along, and the session is returned as the
  loop leaves it, also when a request is rejected and the loop is abandoned.
\<close>

fun adminLoop ::
  "SessionChannel option \<Rightarrow> string list \<Rightarrow> SessionChannel list \<Rightarrow> AmongUsSession \<Rightarrow> world
     \<Rightarrow> (error + unit) \<times> AmongUsSession \<times> world" where
  "adminLoop categoryChannel [] emptyAdminChannels session w = (Inr (), session, w)"
| "adminLoop categoryChannel (adminId # rest) emptyAdminChannels session w =
     (if emptyAdminChannels \<noteq> []
      then (case request (EditGuildMember (guild session) adminId
                            (channelId (last emptyAdminChannels))) w of
              (Inl e, w1) \<Rightarrow> (Inl e, session, w1)
            | (Inr u, w1) \<Rightarrow>
                adminLoop categoryChannel rest (butlast emptyAdminChannels) session w1)
      else (case create (CreateMessage (channel session) (Text (adminNotice adminId))) w of
              (Inl e, w1) \<Rightarrow> (Inl e, session, w1)
            | (Inr u, w1) \<Rightarrow>
                (case categoryChannel of
                   None \<Rightarrow> (Inl TypeError, session, w1)
                 | Some category \<Rightarrow>
                     (case create (CreateChannel (guild session)
                                     ''Among Us - Admin Playing Channel'' 2 (channelId category)
                                     [\<lparr>overwriteType = ''role'', overwriteId = guild session,
                                        deny = [voiceSpeak, readMessages], allow = 0\<rparr>]) w1 of
                        (Inl e, w2) \<Rightarrow> (Inl e, session, w2)
                      | (Inr adminChannel, w2) \<Rightarrow>
                          (let session' = session\<lparr>channels := channels session @
                                  [\<lparr>channelId = adminChannel, type = ADMIN_SILENCE,
                                     invite = None\<rparr>]\<rparr>
                           in case request (EditGuildMember (guild session') adminId
                                              adminChannel) w2 of
                                (Inl e, w3) \<Rightarrow> (Inl e, session', w3)
                              | (Inr u, w3) \<Rightarrow>
                                  adminLoop categoryChannel rest emptyAdminChannels
                                    session' w3)))))"

text \<open>
  \<^verbatim>\<open>isMemberAdmin\<close> is imported from the listeners, where the sources do not define it:
  it is a parameter. An unsuccessful \<^verbatim>\<open>find(...)!\<close> fails where the channel is first
  read: the talking channel at once, the category when a channel is created, the
  silence channel when there is an ordinary player to move.
\<close>

definition movePlayersToSilenceChannel ::
  "(string \<Rightarrow> bool) \<Rightarrow> AmongUsSession \<Rightarrow> world \<Rightarrow> (error + unit) \<times> AmongUsSession \<times> world" where
  "movePlayersToSilenceChannel isMemberAdmin session w =
     (let categoryChannel = find (\<lambda>x. type x = CATEGORY) (channels session);
          talkingChannel = find (\<lambda>x. type x = TALKING) (channels session);
          silenceChannel = find (\<lambda>x. type x = SILENCE) (channels session)
      in case talkingChannel of
           None \<Rightarrow> (Inl TypeError, session, w)
         | Some talking \<Rightarrow>
             (let playersInTalkingChannel = getMembersInChannel w (channelId talking);
                  normalPlayersInTalkingChannel =
                    filter (\<lambda>x. \<not> isMemberAdmin x) playersInTalkingChannel;
                  adminPlayersInTalkingChannel = filter isMemberAdmin playersInTalkingChannel;
                  emptyAdminChannels =
                    filter (\<lambda>x. type x = ADMIN_SILENCE
                                 \<and> length (getMembersInChannel w (channelId x)) = 0)
                      (channels session)
              in case adminLoop categoryChannel adminPlayersInTalkingChannel
                        emptyAdminChannels session w of
                   (Inl e, session', w') \<Rightarrow> (Inl e, session', w')
                 | (Inr u, session', w') \<Rightarrow>
                     (case silenceChannel of
                        None \<Rightarrow>
                          (if normalPlayersInTalkingChannel = [] then (Inr (), session', w')
                           else (Inl TypeError, session', w'))
                      | Some silence \<Rightarrow>
                          (case promiseAll
                                  (map (\<lambda>id. request (EditGuildMember (guild session') id
                                                        (channelId silence)))
                                     normalPlayersInTalkingChannel) w' of
                             (r, w'') \<Rightarrow> (r, session', w'')))))"

definition footerReminder :: "(string \<times> string) option" where
  "footerReminder =
     Some (''https://cdn.discordapp.com/icons/579772930607808537/2d2607a672f2529206edd929ef55173e.png?size=128'',
           ''Reminder: the bot takes up a player spot!'')"

definition inviteText :: "SessionChannel \<Rightarrow> string" where
  "inviteText c = (case invite c of None \<Rightarrow> ''undefined'' | Some i \<Rightarrow> i)"

definition hostingText :: "AmongUsSession \<Rightarrow> SessionChannel \<Rightarrow> string" where
  "hostingText session mainChannel =
     user session
       @ '' is hosting a game of [Among Us](http://www.innersloth.com/gameAmongUs.php)! Join the voice channel <#''
       @ channelId mainChannel @ ''> or click [here](https://discord.gg/''
       @ inviteText mainChannel @ '') to join the voice chat. ''"

definition updateMessageToPlaying :: "(LobbyRegion \<Rightarrow> string) \<Rightarrow> AmongUsSession \<Rightarrow> unit promise" where
  "updateMessageToPlaying regionText session =
     (case find (\<lambda>x. type x = TALKING) (channels session) of
        None \<Rightarrow> reject TypeError
      | Some mainChannel \<Rightarrow>
          request (EditMessage (channel session) (message session)
            \<lparr>color = WARN,
             title = Some (die @ '' Among Us - '' @ regionText (region session) @ '' - ''
                             @ lobbyCode session @ '' (In Game)''),
             description = hostingText session mainChannel
               @ ''~~To join the Among Us lobby, select the **'' @ regionText (region session)
               @ ''** server and enter code `'' @ lobbyCode session
               @ ''`.~~ The lobby is currently ongoing! You'' @ [CHR 0x27]
               @ ''ll need to wait for the round to end before you can join.'',
             footer = footerReminder\<rparr>))"

definition updateMessageToLobby :: "(LobbyRegion \<Rightarrow> string) \<Rightarrow> AmongUsSession \<Rightarrow> unit promise" where
  "updateMessageToLobby regionText session =
     (case find (\<lambda>x. type x = TALKING) (channels session) of
        None \<Rightarrow> reject TypeError
      | Some mainChannel \<Rightarrow>
          request (EditMessage (channel session) (message session)
            \<lparr>color = INFO,
             title = Some (die @ '' Among Us - '' @ regionText (region session) @ '' - ''
                             @ lobbyCode session),
             description = hostingText session mainChannel
               @ ''To join the Among Us lobby, select the **'' @ regionText (region session)
               @ ''** server and enter code `'' @ lobbyCode session @ ''`.'',
             footer = footerReminder\<rparr>))"

text \<open>The two tests of \<^verbatim>\<open>updateMessage\<close> follow each other; neither has an \<^verbatim>\<open>else\<close>.\<close>

definition updateMessage :: "(LobbyRegion \<Rightarrow> string) \<Rightarrow> AmongUsSession \<Rightarrow> unit promise" where
  "updateMessage regionText session =
     await (if state session = LOBBY then updateMessageToLobby regionText session
            else resolve ())
       (\<lambda>_. if state session = PLAYING \<or> state session = DISCUSSING
             then updateMessageToPlaying regionText session
             else resolve ())"

text \<open>
  The message handler. \<^verbatim>\<open>startSession\<close> belongs to the session runner, which is not
  among the sources: it is a parameter. The reply of the \<^verbatim>\<open>catch\<close> block swallows its
  own failure.
\<close>

definition onMessageCreated ::
  "(LobbyRegion \<Rightarrow> string) \<Rightarrow> (AmongUsSession \<Rightarrow> unit promise) \<Rightarrow> Message \<Rightarrow> unit promise" where
  "onMessageCreated regionText startSession msg =
     (if \<not> startsWith (content msg) COMMAND_PREFIX \<or> authorBot msg then resolve ()
      else if \<not> inTextChannel msg then resolve ()
      else tryCatch
             (case parseCommandInvocation (content msg) of
                Inl e \<Rightarrow> reject e
              | Inr (region0, code) \<Rightarrow>
                  await (createEmptyNewSession regionText msg region0 code) startSession)
             (\<lambda>e. tryCatch
                     (await (create (CreateMessage (messageChannel msg)
                        (Text (''<@!'' @ authorId msg @ ''>, sorry but something went wrong: ''
                                 @ errorText e))))
                        (\<lambda>_. resolve ()))
                     (\<lambda>_. resolve ())))"

section \<open>The startup (\<^verbatim>\<open>index.ts\<close>)\<close>

text \<open>
  The startup function writes to the console, connects to the database and connects the
  bot. \<^verbatim>\<open>connectToDatabase\<close> is not among the sources and the connection of the bot
  belongs to the platform's client: both are parameters. The function ends with the
  third line written: it registers no handler and calls none of the actions.
\<close>

definition consoleLog :: "string \<Rightarrow> unit promise" where
  "consoleLog line w = (Inr (), w\<lparr>console := console w @ [line]\<rparr>)"

definition main :: "unit promise \<Rightarrow> unit promise \<Rightarrow> string \<Rightarrow> unit promise" where
  "main connectToDatabase connectBot botUsername =
     await (consoleLog ''[+] Starting impostor...'')
       (\<lambda>_. await connectToDatabase
          (\<lambda>_. await (consoleLog ''[+] Connected to database!'')
             (\<lambda>_. await connectBot
                (\<lambda>_. consoleLog (''[+] Connected to Discord as '' @ botUsername)))))"

section \<open>Notions the properties are stated with\<close>

text \<open>What is read off the requests sent: the moves of members, and the kinds of request.\<close>

fun moveOf :: "call \<Rightarrow> (string \<times> string) option" where
  "moveOf (EditGuildMember g m c) = Some (m, c)"
| "moveOf other = None"

definition moves :: "call list \<Rightarrow> (string \<times> string) list" where
  "moves cs = List.map_filter moveOf cs"

text \<open>The channel of the last move requested for a member, if there is one.\<close>

fun lastMove :: "call list \<Rightarrow> string \<Rightarrow> string option" where
  "lastMove [] m = None"
| "lastMove (c # cs) m =
     (case lastMove cs m of
        Some ch \<Rightarrow> Some ch
      | None \<Rightarrow> (case moveOf c of
                   Some (p, ch) \<Rightarrow> (if p = m then Some ch else None)
                 | None \<Rightarrow> None))"

fun isEditMessage :: "call \<Rightarrow> bool" where
  "isEditMessage (EditMessage c m e) = True"
| "isEditMessage other = False"


text \<open>
  A sequence of voice notifications in which nobody joins a channel, alone or as the
  second half of a move, while the index has them in that channel already.
\<close>

fun joinsAfresh :: "event list \<Rightarrow> world \<Rightarrow> bool" where
  "joinsAfresh [] w = True"
| "joinsAfresh (Join member newChannel # es) w =
     (memberId member \<notin> set (getMembersInChannel w newChannel)
      \<and> joinsAfresh es (snd (handle (Join member newChannel) w)))"
| "joinsAfresh (Leave member oldChannel # es) w =
     joinsAfresh es (snd (handle (Leave member oldChannel) w))"
| "joinsAfresh (Change member newChannel oldChannel # es) w =
     (memberId member \<notin> set (getMembersInChannel (snd (onVoiceLeave member oldChannel w)) newChannel)
      \<and> joinsAfresh es (snd (handle (Change member newChannel oldChannel) w)))"

text \<open>
  The batches of the two reconciliations: the moves to the talking channel, one for each
  member the index has in a silence-typed channel of the session, and the moves of the
  ordinary players to the silence channel. A batch comes to one of these outcomes: it
  is resolved and the platform accepts each of its requests, or it is rejected with
  the rejection of one of its requests.
\<close>

definition batchToTalking :: "AmongUsSession \<Rightarrow> SessionChannel \<Rightarrow> world \<Rightarrow> call list" where
  "batchToTalking session talking w =
     concat (map (\<lambda>x. map (\<lambda>m. EditGuildMember (guild session) m (channelId talking))
                          (getMembersInChannel w (channelId x)))
               (filter (\<lambda>x. type x \<in> set SILENCE_CHANNELS) (channels session)))"

definition batchToSilence ::
  "(string \<Rightarrow> bool) \<Rightarrow> AmongUsSession \<Rightarrow> SessionChannel \<Rightarrow> SessionChannel \<Rightarrow> world \<Rightarrow> call list" where
  "batchToSilence isMemberAdmin session talking silence w =
     map (\<lambda>m. EditGuildMember (guild session) m (channelId silence))
       (filter (\<lambda>x. \<not> isMemberAdmin x) (getMembersInChannel w (channelId talking)))"

definition batchOutcome :: "world \<Rightarrow> call list \<Rightarrow> error + unit \<Rightarrow> bool" where
  "batchOutcome w cs r =
     (case r of
        Inr u \<Rightarrow> list_all (\<lambda>c. rejects w c = None) cs
      | Inl e \<Rightarrow> list_ex (\<lambda>c. case rejects w c of Some err \<Rightarrow> e = Rejected err | None \<Rightarrow> False) cs)"

text \<open>
  The first part of \<^verbatim>\<open>movePlayersToSilenceChannel\<close>, up to the end of its loop over the
  administrators found in the talking channel.
\<close>

definition adminPhase ::
  "(string \<Rightarrow> bool) \<Rightarrow> AmongUsSession \<Rightarrow> SessionChannel \<Rightarrow> world
     \<Rightarrow> (error + unit) \<times> AmongUsSession \<times> world" where
  "adminPhase isMemberAdmin session talking w =
     adminLoop (find (\<lambda>x. type x = CATEGORY) (channels session))
       (filter isMemberAdmin (getMembersInChannel w (channelId talking)))
       (filter (\<lambda>x. type x = ADMIN_SILENCE \<and> length (getMembersInChannel w (channelId x)) = 0)
          (channels session))
       session w"

text \<open>
  The notifications the platform sends when the members \<open>ms\<close> of a guild have been
  moved from one voice channel to another.
\<close>

definition movedNotifications :: "string \<Rightarrow> string list \<Rightarrow> string \<Rightarrow> string \<Rightarrow> event list" where
  "movedNotifications guildId ms newChannel oldChannel =
     map (\<lambda>m. Change \<lparr>memberId = m, memberGuild = guildId\<rparr> newChannel oldChannel) ms"


definition adminChannel :: "string \<Rightarrow> SessionChannel" where
  "adminChannel c = \<lparr>channelId = c, type = ADMIN_SILENCE, invite = None\<rparr>"

text \<open>
  Two lists \<^verbatim>\<open>movePlayersToSilenceChannel\<close> computes before its loop: the administrators
  the index has in the talking channel, and the administrator channels of the session
  that are empty by the index.
\<close>

definition adminPlayersInTalkingChannel ::
  "(string \<Rightarrow> bool) \<Rightarrow> SessionChannel \<Rightarrow> world \<Rightarrow> string list" where
  "adminPlayersInTalkingChannel isMemberAdmin talking w =
     filter isMemberAdmin (getMembersInChannel w (channelId talking))"

definition emptyAdminChannels :: "AmongUsSession \<Rightarrow> world \<Rightarrow> SessionChannel list" where
  "emptyAdminChannels session w =
     filter (\<lambda>x. type x = ADMIN_SILENCE \<and> length (getMembersInChannel w (channelId x)) = 0)
       (channels session)"

section \<open>Concrete worlds\<close>

text \<open>
  A platform that accepts every request, with nobody in a voice channel and no session
  stored; the identifiers it hands out differ from one another, and its replies arrive
  in the order of the requests.
\<close>

definition quietWorld :: world where
  "quietWorld =
     \<lparr>VOICE_CHANNEL_USERS = Map.empty, sessions = [], requests = [],
      rejects = (\<lambda>c. None), created = 0,
      freshId = (\<lambda>n. ''new'' @ replicate n (CHR ''+'')), firstReply = (\<lambda>es. 0),
      console = []\<rparr>"

definition shortCodeMessage :: Message where
  "shortCodeMessage =
     \<lparr>content = ''!amongus eu ABC'', authorId = ''42'', authorBot = False,
      authorUsername = ''host'', inTextChannel = True, messageChannel = ''text'',
      messageGuild = ''guild''\<rparr>"

definition endedSession :: AmongUsSession where
  "endedSession =
     \<lparr>guild = ''guild'', channel = ''text'', message = ''status'', user = ''host'',
      state = ENDED, region = EUROPE, lobbyCode = ''ABCDEF'',
      channels = [\<lparr>channelId = ''talk'', type = TALKING, invite = Some ''inv''\<rparr>]\<rparr>"

definition alice :: Member where
  "alice = \<lparr>memberId = ''alice'', memberGuild = ''guild''\<rparr>"

text \<open>A session in the middle of a match, with its three channels, and nobody in them.\<close>

definition playingSession :: AmongUsSession where
  "playingSession =
     \<lparr>guild = ''guild'', channel = ''text'', message = ''status'', user = ''host'',
      state = PLAYING, region = EUROPE, lobbyCode = ''ABCDEF'',
      channels = [\<lparr>channelId = ''category'', type = CATEGORY, invite = None\<rparr>,
                  \<lparr>channelId = ''talk'', type = TALKING, invite = Some ''inv''\<rparr>,
                  \<lparr>channelId = ''quiet'', type = SILENCE, invite = None\<rparr>]\<rparr>"

definition playingWorld :: world where
  "playingWorld = quietWorld\<lparr>sessions := [playingSession]\<rparr>"

text \<open>A second session, still in its lobby, and the store a restart finds with both.\<close>

definition lobbySession :: AmongUsSession where
  "lobbySession =
     \<lparr>guild = ''guild'', channel = ''text'', message = ''status2'', user = ''guest'',
      state = LOBBY, region = ASIA, lobbyCode = ''QWERTY'',
      channels = [\<lparr>channelId = ''category2'', type = CATEGORY, invite = None\<rparr>,
                  \<lparr>channelId = ''talk2'', type = TALKING, invite = Some ''inv2''\<rparr>,
                  \<lparr>channelId = ''quiet2'', type = SILENCE, invite = None\<rparr>]\<rparr>"

definition restartedWorld :: world where
  "restartedWorld = quietWorld\<lparr>sessions := [playingSession, lobbySession]\<rparr>"

text \<open>A platform on which the talking channel of the first session is gone already.\<close>

definition goneWorld :: world where
  "goneWorld =
     playingWorld\<lparr>rejects :=
       (\<lambda>c. if c = DeleteChannel ''talk'' ''Among Us: Session is over.''
            then Some ''Unknown Channel'' else None)\<rparr>"

text \<open>
  Two players in the talking channel of the session; and two players in its silence
  channel on a platform that rejects the move of the first of them.
\<close>

definition talkingWorld :: world where
  "talkingWorld =
     playingWorld\<lparr>VOICE_CHANNEL_USERS := [''talk'' \<mapsto> [''alice'', ''bob'']]\<rparr>"

definition silencedWorld :: world where
  "silencedWorld =
     playingWorld\<lparr>VOICE_CHANNEL_USERS := [''quiet'' \<mapsto> [''bob'', ''carol'']],
       rejects := (\<lambda>c. if c = EditGuildMember ''guild'' ''bob'' ''talk''
                        then Some ''Unknown Member'' else None)\<rparr>"





text \<open>
  The same two players in the silence channel on a platform that rejects both moves,
  each with an error of its own, and whose reply to the second arrives first.
\<close>

definition racingWorld :: world where
  "racingWorld =
     playingWorld\<lparr>VOICE_CHANNEL_USERS := [''quiet'' \<mapsto> [''bob'', ''carol'']],
       rejects := (\<lambda>c. if c = EditGuildMember ''guild'' ''bob'' ''talk''
                        then Some ''Unknown Member''
                        else if c = EditGuildMember ''guild'' ''carol'' ''talk''
                        then Some ''Missing Permissions'' else None),
       firstReply := (\<lambda>es. 1)\<rparr>"

text \<open>
  A player in the talking channel and another in the silence channel already.
\<close>

definition mixedWorld :: world where
  "mixedWorld =
     playingWorld\<lparr>VOICE_CHANNEL_USERS := [''talk'' \<mapsto> [''alice''], ''quiet'' \<mapsto> [''zed'']]\<rparr>"



section \<open>Properties of the command parser\<close>

lemma trimStart_Nil: "trimStart [] = []"
  by (simp add: trimStart_def)

lemma trimEnd_Nil: "trimEnd [] = []"
  by (simp add: trimEnd_def)

lemma trimStart_Cons: "trimStart (x # xs) = (if isWhiteSpace x then trimStart xs else x # xs)"
  by (simp add: trimStart_def)

lemma trimEnd_Cons:
  "trimEnd (x # xs) =
     (if \<forall>y\<in>set xs. isWhiteSpace y then (if isWhiteSpace x then [] else [x])
      else x # trimEnd xs)"
  by (simp add: trimEnd_def dropWhile_append)

lemma trimStart_blank: "\<forall>y\<in>set xs. isWhiteSpace y \<Longrightarrow> trimStart xs = []"
  by (simp add: trimStart_def)

lemma trimStart_trimEnd: "trimStart (trimEnd xs) = trimEnd (trimStart xs)"
  by (induction xs)
    (simp_all add: trimStart_Cons trimEnd_Cons trimStart_blank trimStart_Nil trimEnd_Nil)

lemma trimEnd_idem: "trimEnd (trimEnd xs) = trimEnd xs"
  by (simp add: trimEnd_def)

lemma trim_space_trimEnd: "trim (CHR '' '' # trimEnd xs) = trim xs"
  by (simp add: trim_def trimStart_Cons isWhiteSpace_def trimStart_trimEnd trimEnd_idem)

lemma trim_space: "trim (CHR '' '' # xs) = trim xs"
  by (simp add: trim_def trimStart_Cons isWhiteSpace_def)

text \<open>A string without white space is its own trimmed form.\<close>

lemma trim_solid:
  assumes solid: "\<forall>c\<in>set xs. \<not> isWhiteSpace c"
  shows "trim xs = xs"
proof (cases xs rule: rev_cases)
  case Nil
  then show ?thesis by (simp add: trim_def trimStart_Nil trimEnd_Nil)
next
  case (snoc ys y)
  with solid have "trimStart xs = xs"
    by (cases ys) (simp_all add: trimStart_Cons)
  moreover from solid snoc have "trimEnd xs = xs"
    by (simp add: trimEnd_def)
  ultimately show ?thesis by (simp add: trim_def)
qed

lemma V2_upper: "c \<in> set V2 \<Longrightarrow> 65 \<le> (of_char c :: nat) \<and> (of_char c :: nat) \<le> 90"
  by (auto simp: V2_def)

lemma upper_V2_solid:
  assumes v: "upperChar c \<in> set V2"
  shows "\<not> isWhiteSpace c"
proof
  assume ws: "isWhiteSpace c"
  then have "upperChar c = c" by (auto simp: isWhiteSpace_def upperChar_def Let_def)
  with v have "65 \<le> (of_char c :: nat)" using V2_upper by metis
  with ws show False by (auto simp: isWhiteSpace_def)
qed

lemma validate_space: "validateLobbyCode (CHR '' '' # rest) = validateLobbyCode rest"
  by (simp add: validateLobbyCode_def trim_space)

lemma validate_space_trimEnd:
  "validateLobbyCode (CHR '' '' # trimEnd rest) = validateLobbyCode rest"
  by (simp add: validateLobbyCode_def trim_space_trimEnd)

lemma validate_accepts:
  assumes "length code = 6" and "set (toUpperCase code) \<subseteq> set V2"
  shows "validateLobbyCode code = Inr (toUpperCase code)"
proof -
  from assms(2) have "\<forall>c\<in>set code. \<not> isWhiteSpace c"
    using upper_V2_solid by (auto simp: toUpperCase_def)
  then have "trim code = code" by (rule trim_solid)
  with assms show ?thesis
    by (auto simp: validateLobbyCode_def Let_def list_ex_iff toUpperCase_def)
qed

lemma validate_refuses:
  assumes "length (toUpperCase (trim code)) \<noteq> 6 \<or> \<not> set (toUpperCase (trim code)) \<subseteq> set V2"
  shows "\<exists>e. validateLobbyCode code = Inl (Thrown e)"
  using assms by (auto simp: validateLobbyCode_def Let_def list_ex_iff)

text \<open>Whatever the parser returns as a code has six characters of the alphabet.\<close>

lemma validate_sound:
  "validateLobbyCode code = Inr c \<Longrightarrow>
     c = toUpperCase (trim code) \<and> length c = 6 \<and> set c \<subseteq> set V2"
  by (auto simp: validateLobbyCode_def Let_def list_ex_iff split: if_splits)

lemmas parse_simps =
  parseCommandInvocation_def COMMAND_PREFIX_def sliceFrom_def slice_def clampIndex_def Let_def
  validate_space

text \<open>A region token of one word, then a space: the rest is validated as the code.\<close>

lemma parse_simple_token:
  assumes "(tok, r) \<in> {(''eu'', EUROPE), (''europe'', EUROPE), (''na'', NORTH_AMERICA),
      (''us'', NORTH_AMERICA), (''usa'', NORTH_AMERICA), (''america'', NORTH_AMERICA),
      (''northamerica'', NORTH_AMERICA), (''as'', ASIA), (''asia'', ASIA)}"
  shows "parseCommandInvocation (COMMAND_PREFIX @ tok @ '' '' @ rest) =
           (case validateLobbyCode rest of Inl e \<Rightarrow> Inl e | Inr code \<Rightarrow> Inr (r, code))"
  using assms by (elim insertE emptyE; clarsimp simp: parse_simps)

lemma trim_america:
  "trim ('' america '' @ rest) =
     (if \<forall>c\<in>set rest. isWhiteSpace c then ''america'' else ''america '' @ trimEnd rest)"
  by (simp add: trim_def trimStart_Cons trimEnd_Cons isWhiteSpace_def trimEnd_Nil)

text \<open>
  The two words \<open>north america\<close>: the second word is looked for in the trimmed rest,
  so with nothing but white space after it the word found is \<open>americ\<close> and the region
  stays undetermined.
\<close>

lemma parse_north_america:
  "parseCommandInvocation (COMMAND_PREFIX @ ''north america'' @ '' '' @ rest) =
     (if \<forall>c\<in>set rest. isWhiteSpace c
      then Inl (Thrown (''Could not determine the region of the lobby. Try doing `''
                    @ COMMAND_PREFIX @ ''na ABCDEF` or `'' @ COMMAND_PREFIX
                    @ ''europe GHIJKL`.''))
      else (case validateLobbyCode rest of
              Inl e \<Rightarrow> Inl e
            | Inr code \<Rightarrow> Inr (NORTH_AMERICA, code)))"
proof -
  have first_word:
    "parseCommandInvocation (COMMAND_PREFIX @ ''north america'' @ '' '' @ rest) =
     (let msg = trim ('' america '' @ rest);
          nextNextWord = slice msg 0 (indexOf msg (CHR '' ''));
          (region, msg) = (if nextNextWord = ''america''
                      then (Some NORTH_AMERICA, sliceFrom msg (int (length nextNextWord)))
                      else (None, msg))
      in case region of
           None \<Rightarrow>
             Inl (Thrown (''Could not determine the region of the lobby. Try doing `''
                    @ COMMAND_PREFIX @ ''na ABCDEF` or `'' @ COMMAND_PREFIX
                    @ ''europe GHIJKL`.''))
         | Some r \<Rightarrow>
             (case validateLobbyCode msg of
                Inl e \<Rightarrow> Inl e
              | Inr code \<Rightarrow> Inr (r, code)))"
    by (simp add: parseCommandInvocation_def COMMAND_PREFIX_def sliceFrom_def slice_def
          clampIndex_def Let_def)
  show ?thesis unfolding first_word trim_america
    by (simp add: sliceFrom_def slice_def clampIndex_def Let_def validate_space_trimEnd)
qed

lemma startsWith_prefix: "startsWith (COMMAND_PREFIX @ rest) COMMAND_PREFIX"
  by (simp add: startsWith_def)

text \<open>A command that does not parse gets a reply and leaves the stored sessions alone.\<close>

lemma onMessageCreated_refused:
  assumes "parseCommandInvocation (content msg) = Inl (Thrown e)"
    and "startsWith (content msg) COMMAND_PREFIX" and "\<not> authorBot msg" and "inTextChannel msg"
  shows "fst (onMessageCreated regionText startSession msg w) = Inr ()"
    and "sessions (snd (onMessageCreated regionText startSession msg w)) = sessions w"
    and "requests (snd (onMessageCreated regionText startSession msg w)) =
           requests w @ [CreateMessage (messageChannel msg)
             (Text (''<@!'' @ authorId msg @ ''>, sorry but something went wrong: '' @ e))]"
  using assms
  by (simp_all add: onMessageCreated_def tryCatch_def reject_def resolve_def await_def create_def
        split: option.splits)

text \<open>
  Every token of the spec's vocabulary, then a space: the rest is validated as the code,
  unless the token is \<open>north america\<close> and the rest is blank.
\<close>

lemma parse_vocabulary:
  assumes "(tok, r) \<in> {(''eu'', EUROPE), (''europe'', EUROPE), (''na'', NORTH_AMERICA),
      (''us'', NORTH_AMERICA), (''usa'', NORTH_AMERICA), (''america'', NORTH_AMERICA),
      (''north america'', NORTH_AMERICA), (''as'', ASIA), (''asia'', ASIA)}"
  shows "parseCommandInvocation (COMMAND_PREFIX @ tok @ '' '' @ rest) =
           (case validateLobbyCode rest of Inl e \<Rightarrow> Inl e | Inr code \<Rightarrow> Inr (r, code))
         \<or> (\<exists>e. parseCommandInvocation (COMMAND_PREFIX @ tok @ '' '' @ rest) = Inl (Thrown e)
              \<and> (\<forall>c\<in>set rest. isWhiteSpace c))"
proof (cases "tok = ''north america''")
  case True
  with assms have "r = NORTH_AMERICA" by auto
  with True show ?thesis by (simp only: parse_north_america split: if_splits) simp
next
  case False
  with assms have "(tok, r) \<in> {(''eu'', EUROPE), (''europe'', EUROPE), (''na'', NORTH_AMERICA),
      (''us'', NORTH_AMERICA), (''usa'', NORTH_AMERICA), (''america'', NORTH_AMERICA),
      (''northamerica'', NORTH_AMERICA), (''as'', ASIA), (''asia'', ASIA)}"
    by auto
  then show ?thesis by (simp only: parse_simple_token) simp
qed

text \<open>
  Claim C1, as the code has it. The region token is compared with \<^verbatim>\<open>===\<close> against
  lower-case words, so it is matched exactly and not without regard to case; the code
  is judged after white space around it is trimmed and it is put in upper case. For a
  command of ASCII characters made of the prefix, a token of the vocabulary written in
  lower case, a space and a code: when the code has six characters whose upper-case
  forms are in the alphabet, the parser returns the region and the code in upper case;
  when the trimmed, upper-cased code has another length or a character outside the
  alphabet, the parser throws a string, the message handler replies with it and the
  stored sessions are as before.
\<close>

theorem C1_parse_command:
  assumes tok: "(tok, r) \<in> {(''eu'', EUROPE), (''europe'', EUROPE), (''na'', NORTH_AMERICA),
      (''us'', NORTH_AMERICA), (''usa'', NORTH_AMERICA), (''america'', NORTH_AMERICA),
      (''north america'', NORTH_AMERICA), (''as'', ASIA), (''asia'', ASIA)}"
  shows "(length code = 6 \<and> set (toUpperCase code) \<subseteq> set V2 \<longrightarrow>
            parseCommandInvocation (COMMAND_PREFIX @ tok @ '' '' @ code) = Inr (r, toUpperCase code))
       \<and> ((\<forall>c\<in>set code. ascii c)
            \<and> (length (toUpperCase (trim code)) \<noteq> 6 \<or> \<not> set (toUpperCase (trim code)) \<subseteq> set V2)
            \<and> content msg = COMMAND_PREFIX @ tok @ '' '' @ code
            \<and> \<not> authorBot msg \<and> inTextChannel msg \<longrightarrow>
            (\<exists>e. parseCommandInvocation (content msg) = Inl (Thrown e)
               \<and> fst (onMessageCreated regionText startSession msg w) = Inr ()
               \<and> requests (snd (onMessageCreated regionText startSession msg w)) =
                   requests w @ [CreateMessage (messageChannel msg)
                     (Text (''<@!'' @ authorId msg @ ''>, sorry but something went wrong: '' @ e))]
               \<and> sessions (snd (onMessageCreated regionText startSession msg w)) = sessions w))"
proof (intro conjI impI)
  assume ok: "length code = 6 \<and> set (toUpperCase code) \<subseteq> set V2"
  then have v: "validateLobbyCode code = Inr (toUpperCase code)"
    by (simp add: validate_accepts)
  from ok have "code \<noteq> []" by auto
  moreover from ok have "\<forall>c\<in>set code. \<not> isWhiteSpace c"
    using upper_V2_solid by (auto simp: toUpperCase_def)
  ultimately have "\<not> (\<forall>c\<in>set code. isWhiteSpace c)"
    by (cases code) auto
  with parse_vocabulary[OF tok, of code] v
  show "parseCommandInvocation (COMMAND_PREFIX @ tok @ '' '' @ code) = Inr (r, toUpperCase code)"
    by auto
next
  assume bad: "(\<forall>c\<in>set code. ascii c)
            \<and> (length (toUpperCase (trim code)) \<noteq> 6 \<or> \<not> set (toUpperCase (trim code)) \<subseteq> set V2)
            \<and> content msg = COMMAND_PREFIX @ tok @ '' '' @ code
            \<and> \<not> authorBot msg \<and> inTextChannel msg"
  then obtain e0 where "validateLobbyCode code = Inl (Thrown e0)"
    using validate_refuses by blast
  with parse_vocabulary[OF tok, of code] bad
  obtain e where e: "parseCommandInvocation (content msg) = Inl (Thrown e)"
    by auto
  from bad have "startsWith (content msg) COMMAND_PREFIX"
    by (simp add: startsWith_prefix)
  with e bad onMessageCreated_refused[of msg e regionText startSession w]
  show "\<exists>e. parseCommandInvocation (content msg) = Inl (Thrown e)
               \<and> fst (onMessageCreated regionText startSession msg w) = Inr ()
               \<and> requests (snd (onMessageCreated regionText startSession msg w)) =
                   requests w @ [CreateMessage (messageChannel msg)
                     (Text (''<@!'' @ authorId msg @ ''>, sorry but something went wrong: '' @ e))]
               \<and> sessions (snd (onMessageCreated regionText startSession msg w)) = sessions w"
    by blast
qed

theorem C1_witness:
  "parseCommandInvocation ''!amongus eu abcdef'' = Inr (EUROPE, ''ABCDEF'')
   \<and> fst (onMessageCreated (\<lambda>r. ''Europe'') (\<lambda>s. resolve ()) shortCodeMessage quietWorld) = Inr ()
   \<and> requests (snd (onMessageCreated (\<lambda>r. ''Europe'') (\<lambda>s. resolve ()) shortCodeMessage quietWorld)) =
       [CreateMessage ''text'' (Text ''<@!42>, sorry but something went wrong: Invalid lobby code. The lobby code must be exactly 6 letters.'')]
   \<and> sessions (snd (onMessageCreated (\<lambda>r. ''Europe'') (\<lambda>s. resolve ()) shortCodeMessage quietWorld)) = []"
proof -
  have tok: "(''eu'', EUROPE) \<in> {(''eu'', EUROPE), (''europe'', EUROPE), (''na'', NORTH_AMERICA),
      (''us'', NORTH_AMERICA), (''usa'', NORTH_AMERICA), (''america'', NORTH_AMERICA),
      (''north america'', NORTH_AMERICA), (''as'', ASIA), (''asia'', ASIA)}"
    by simp
  have up: "toUpperCase ''abcdef'' = ''ABCDEF''"
    by code_simp
  have good: "length ''abcdef'' = 6 \<and> set (toUpperCase ''abcdef'') \<subseteq> set V2"
    unfolding up by (simp add: V2_def)
  have short: "toUpperCase (trim ''ABC'') = ''ABC''"
    by code_simp
  have bad: "(\<forall>c\<in>set ''ABC''. ascii c)
            \<and> (length (toUpperCase (trim ''ABC'')) \<noteq> 6 \<or> \<not> set (toUpperCase (trim ''ABC'')) \<subseteq> set V2)
            \<and> content shortCodeMessage = COMMAND_PREFIX @ ''eu'' @ '' '' @ ''ABC''
            \<and> \<not> authorBot shortCodeMessage \<and> inTextChannel shortCodeMessage"
    unfolding short by (simp add: ascii_def shortCodeMessage_def COMMAND_PREFIX_def)
  have parsed: "parseCommandInvocation (content shortCodeMessage) =
     Inl (Thrown ''Invalid lobby code. The lobby code must be exactly 6 letters.'')"
    by code_simp
  from C1_parse_command[OF tok, where code = "''abcdef''"]
    C1_parse_command[OF tok, where code = "''ABC''" and msg = shortCodeMessage
      and regionText = "\<lambda>r. ''Europe''" and startSession = "\<lambda>s. resolve ()"
      and w = quietWorld]
    good bad parsed
  show ?thesis
    by (simp add: COMMAND_PREFIX_def up shortCodeMessage_def quietWorld_def)
qed

text \<open>
  The claim as the spec words it fails on an upper-case region token: \<open>EU\<close> with a
  valid code is refused.
\<close>

theorem C1_uppercase_region_refused:
  "parseCommandInvocation (COMMAND_PREFIX @ ''EU'' @ '' '' @ ''ABCDEF'') =
     Inl (Thrown ''Could not determine the region of the lobby. Try doing `!amongus na ABCDEF` or `!amongus europe GHIJKL`.'')"
  by (simp add: parseCommandInvocation_def COMMAND_PREFIX_def sliceFrom_def slice_def
        clampIndex_def Let_def)

section \<open>Properties of the status message\<close>

text \<open>
  Claim C10: for a session whose state is none of LOBBY, PLAYING and DISCUSSING,
  \<^verbatim>\<open>updateMessage\<close> resolves without sending a request: the world, with the requests
  sent, the stored sessions and the index, is the one it started in.
\<close>

theorem C10_updateMessage_other_state:
  "state session \<notin> {LOBBY, PLAYING, DISCUSSING} \<Longrightarrow>
     updateMessage regionText session w = (Inr (), w)"
  by (simp add: updateMessage_def await_def resolve_def)

theorem C10_witness:
  "updateMessage (\<lambda>r. ''Europe'') endedSession quietWorld = (Inr (), quietWorld)"
  using C10_updateMessage_other_state[of endedSession "\<lambda>r. ''Europe''" quietWorld]
  by (simp add: endedSession_def)

section \<open>Properties of the membership index\<close>

lemma members_frame [simp]:
  "getMembersInChannel (w\<lparr>requests := r\<rparr>) = getMembersInChannel w"
  "getMembersInChannel (w\<lparr>created := n\<rparr>) = getMembersInChannel w"
  "getMembersInChannel (w\<lparr>sessions := ss\<rparr>) = getMembersInChannel w"
  by (simp_all add: getMembersInChannel_def fun_eq_iff)

lemma request_index: "VOICE_CHANNEL_USERS (snd (request c w)) = VOICE_CHANNEL_USERS w"
  by (simp add: request_def split: option.splits)

lemma onVoiceJoin_index:
  "VOICE_CHANNEL_USERS (snd (onVoiceJoin member newChannel w)) =
     (VOICE_CHANNEL_USERS w)(newChannel \<mapsto> getMembersInChannel w newChannel @ [memberId member])"
  by (simp add: onVoiceJoin_def Let_def request_index split: option.splits prod.splits)

lemma members_join:
  "getMembersInChannel (snd (onVoiceJoin member newChannel w)) ch =
     (if ch = newChannel then getMembersInChannel w newChannel @ [memberId member]
      else getMembersInChannel w ch)"
  by (simp add: getMembersInChannel_def onVoiceJoin_index)

lemma members_leave:
  "getMembersInChannel (snd (onVoiceLeave member oldChannel w)) ch =
     (if ch = oldChannel then remove1 (memberId member) (getMembersInChannel w oldChannel)
      else getMembersInChannel w ch)"
  by (auto simp: getMembersInChannel_def onVoiceLeave_def remove1_idem split: option.splits)

lemma onVoiceLeave_resolves: "fst (onVoiceLeave member oldChannel w) = Inr ()"
  by (simp add: onVoiceLeave_def split: option.splits)

lemma onVoiceChange_steps:
  "snd (onVoiceChange member newChannel oldChannel w) =
     snd (onVoiceJoin member newChannel (snd (onVoiceLeave member oldChannel w)))"
  using onVoiceLeave_resolves[of member oldChannel w]
  by (cases "onVoiceLeave member oldChannel w") (auto simp: onVoiceChange_def await_def)

lemma handle_keeps_distinct:
  assumes "\<forall>ch. distinct (getMembersInChannel w ch)" and "joinsAfresh (e # es) w"
  shows "\<forall>ch. distinct (getMembersInChannel (snd (handle e w)) ch)"
proof (cases e)
  case (Join member newChannel)
  with assms show ?thesis by (simp add: members_join)
next
  case (Leave member oldChannel)
  with assms show ?thesis by (simp add: members_leave)
next
  case (Change member newChannel oldChannel)
  with assms show ?thesis
    by (simp add: onVoiceChange_steps members_join members_leave)
qed

lemma dispatch_keeps_distinct:
  "\<forall>ch. distinct (getMembersInChannel w ch) \<Longrightarrow> joinsAfresh es w \<Longrightarrow>
     \<forall>ch. distinct (getMembersInChannel (dispatch es w) ch)"
proof (induction es arbitrary: w)
  case Nil
  then show ?case by simp
next
  case (Cons e es)
  from Cons.prems have d: "\<forall>ch. distinct (getMembersInChannel (snd (handle e w)) ch)"
    by (rule handle_keeps_distinct)
  from Cons.prems(2) have "joinsAfresh es (snd (handle e w))"
    by (cases e) simp_all
  with d Cons.IH show ?case by simp
qed

text \<open>
  Claim C2, as the code has it. \<^verbatim>\<open>onVoiceJoin\<close> appends the member to the entry of the
  channel whether or not the entry holds the member already. Entries without
  duplicates stay so after every sequence of join, leave and move notifications in which
  nobody joins a channel whose entry has them already.
\<close>

theorem C2_index_without_duplicates:
  "getMembersInChannel (snd (onVoiceJoin member newChannel w)) newChannel =
     getMembersInChannel w newChannel @ [memberId member]
   \<and> ((\<forall>ch. distinct (getMembersInChannel w ch)) \<and> joinsAfresh es w \<longrightarrow>
        (\<forall>ch. distinct (getMembersInChannel (dispatch es w) ch)))"
  using dispatch_keeps_distinct[of w es] by (simp add: members_join)

theorem C2_witness:
  "getMembersInChannel (snd (onVoiceJoin alice ''talk'' quietWorld)) ''talk'' = [''alice'']
   \<and> (\<forall>ch. distinct (getMembersInChannel
         (dispatch [Join alice ''talk'', Change alice ''quiet'' ''talk'', Leave alice ''quiet'',
                    Join alice ''talk''] quietWorld) ch))"
proof -
  have empty: "\<forall>ch. distinct (getMembersInChannel quietWorld ch)"
    by (simp add: getMembersInChannel_def quietWorld_def)
  have nobody: "getMembersInChannel quietWorld = (\<lambda>ch. [])"
    by (simp add: getMembersInChannel_def quietWorld_def fun_eq_iff)
  have afresh: "joinsAfresh [Join alice ''talk'', Change alice ''quiet'' ''talk'',
                    Leave alice ''quiet'', Join alice ''talk''] quietWorld"
    by (simp add: members_join members_leave onVoiceChange_steps nobody)
  from C2_index_without_duplicates[of alice "''talk''" quietWorld
      "[Join alice ''talk'', Change alice ''quiet'' ''talk'', Leave alice ''quiet'',
        Join alice ''talk'']"] empty afresh
  show ?thesis by (simp add: nobody alice_def)
qed

text \<open>
  The claim as the spec words it fails when the same member joins the same channel
  twice with no leave in between: the entry then holds the member twice.
\<close>

theorem C2_joined_twice: "getMembersInChannel (dispatch [Join alice ''talk'', Join alice ''talk''] quietWorld) ''talk'' = [''alice'', ''alice'']"
  by (simp add: members_join, simp add: getMembersInChannel_def quietWorld_def alice_def)

lemma findTalking_frame:
  "findTalking (w\<lparr>VOICE_CHANNEL_USERS := i\<rparr>) = findTalking w"
  by (simp add: findTalking_def fun_eq_iff)

text \<open>
  Claim C7, as the code has it. When a member enters the TALKING channel of a session
  that is PLAYING, \<^verbatim>\<open>onVoiceJoin\<close> records the member under the TALKING channel,
  leaves the entry of the SILENCE channel as it was and asks the platform to move the
  member to the SILENCE channel; it is resolved when the platform accepts that request.
  The index follows when the platform's notification of that move is handled by
  \<^verbatim>\<open>onVoiceChange\<close>: then it records the member under the SILENCE channel and, for a member it did not
  list in the TALKING channel before the join, no longer under the TALKING channel.
\<close>

theorem C7_join_during_match:
  assumes "findTalking w newChannel = Some (relevantChannel, session)"
    and "state session = PLAYING"
    and "find (\<lambda>x. type x = SILENCE) (channels session) = Some silence"
    and "channelId silence \<noteq> newChannel"
  shows "(rejects w (EditGuildMember (memberGuild member) (memberId member) (channelId silence)) = None
          \<longrightarrow> fst (onVoiceJoin member newChannel w) = Inr ())
     \<and> requests (snd (onVoiceJoin member newChannel w)) =
         requests w @ [EditGuildMember (memberGuild member) (memberId member) (channelId silence)]
     \<and> memberId member \<in> set (getMembersInChannel (snd (onVoiceJoin member newChannel w)) newChannel)
     \<and> getMembersInChannel (snd (onVoiceJoin member newChannel w)) (channelId silence) =
         getMembersInChannel w (channelId silence)
     \<and> memberId member \<in> set (getMembersInChannel
           (snd (onVoiceChange member (channelId silence) newChannel
              (snd (onVoiceJoin member newChannel w)))) (channelId silence))
     \<and> (memberId member \<notin> set (getMembersInChannel w newChannel) \<longrightarrow>
         memberId member \<notin> set (getMembersInChannel
           (snd (onVoiceChange member (channelId silence) newChannel
              (snd (onVoiceJoin member newChannel w)))) newChannel))"
proof -
  from assms(1,2,3)
  have run: "onVoiceJoin member newChannel w =
     request (EditGuildMember (memberGuild member) (memberId member) (channelId silence))
       (w\<lparr>VOICE_CHANNEL_USERS :=
            (VOICE_CHANNEL_USERS w)
              (newChannel \<mapsto> getMembersInChannel w newChannel @ [memberId member])\<rparr>)"
    by (simp add: onVoiceJoin_def Let_def findTalking_frame)
  have answered: "fst (onVoiceJoin member newChannel w) = Inr ()"
    if "rejects w (EditGuildMember (memberGuild member) (memberId member) (channelId silence)) = None"
    using that unfolding run by (simp add: request_def)
  have sent: "requests (snd (onVoiceJoin member newChannel w)) =
         requests w @ [EditGuildMember (memberGuild member) (memberId member) (channelId silence)]"
    unfolding run by (simp add: request_def split: option.splits)
  from assms(4) answered show ?thesis
    by (simp add: sent onVoiceChange_steps members_join members_leave remove1_append)
qed

theorem C7_witness:
  "fst (onVoiceJoin alice ''talk'' playingWorld) = Inr ()
   \<and> ''alice'' \<in> set (getMembersInChannel
        (snd (onVoiceChange alice ''quiet'' ''talk'' (snd (onVoiceJoin alice ''talk'' playingWorld)))) ''quiet'')
   \<and> ''alice'' \<notin> set (getMembersInChannel
        (snd (onVoiceChange alice ''quiet'' ''talk'' (snd (onVoiceJoin alice ''talk'' playingWorld)))) ''talk'')"
proof -
  have found: "findTalking playingWorld ''talk'' =
      Some (\<lparr>channelId = ''talk'', type = TALKING, invite = Some ''inv''\<rparr>, playingSession)"
    by (simp add: findTalking_def playingWorld_def playingSession_def)
  have playing: "state playingSession = PLAYING"
    by (simp add: playingSession_def)
  have silence: "find (\<lambda>x. type x = SILENCE) (channels playingSession) =
      Some \<lparr>channelId = ''quiet'', type = SILENCE, invite = None\<rparr>"
    by (simp add: playingSession_def)
  have other: "channelId \<lparr>channelId = ''quiet'', type = SILENCE, invite = None\<rparr> \<noteq> ''talk''"
    by simp
  have accepted: "rejects playingWorld (EditGuildMember (memberGuild alice) (memberId alice)
      (channelId \<lparr>channelId = ''quiet'', type = SILENCE, invite = None\<rparr>)) = None"
    by (simp add: playingWorld_def quietWorld_def)
  have absent: "memberId alice \<notin> set (getMembersInChannel playingWorld ''talk'')"
    by (simp add: getMembersInChannel_def playingWorld_def quietWorld_def)
  from C7_join_during_match[OF found playing silence other, of alice] accepted absent
  show ?thesis by (simp add: alice_def)
qed

text \<open>
  The claim as the spec words it fails when the handler has run: the index then has
  the member under the TALKING channel and not under the SILENCE channel.
\<close>

theorem C7_index_after_join:
  "getMembersInChannel (snd (onVoiceJoin alice ''talk'' playingWorld)) ''talk'' = [''alice'']
   \<and> getMembersInChannel (snd (onVoiceJoin alice ''talk'' playingWorld)) ''quiet'' = []
   \<and> requests (snd (onVoiceJoin alice ''talk'' playingWorld)) = [EditGuildMember ''guild'' ''alice'' ''quiet'']"
  by (simp add: members_join,
      simp add: getMembersInChannel_def onVoiceJoin_def Let_def findTalking_def playingWorld_def
        quietWorld_def playingSession_def alice_def request_def)


section \<open>Requests, loops and batches\<close>

lemma request_snd: "snd (request c w) = w\<lparr>requests := requests w @ [c]\<rparr>"
  by (simp add: request_def split: option.splits)

lemma request_accepted: "rejects w c = None \<Longrightarrow> request c w = (Inr (), w\<lparr>requests := requests w @ [c]\<rparr>)"
  by (simp add: request_def)

lemma request_rejected:
  "rejects w c = Some err \<Longrightarrow> request c w = (Inl (Rejected err), w\<lparr>requests := requests w @ [c]\<rparr>)"
  by (simp add: request_def)

lemma forEach_accepted:
  "\<forall>x\<in>set xs. rejects w (f x) = None \<Longrightarrow>
     forEach xs (\<lambda>x. request (f x)) w = (Inr (), w\<lparr>requests := requests w @ map f xs\<rparr>)"
proof (induction xs arbitrary: w)
  case Nil
  then show ?case by simp
next
  case (Cons x xs)
  then show ?case by (simp add: request_accepted)
qed

lemma forEach_rejected:
  "\<forall>x\<in>set before. rejects w (f x) = None \<Longrightarrow> rejects w (f x) = Some err \<Longrightarrow>
     forEach (before @ x # after) (\<lambda>x. request (f x)) w =
       (Inl (Rejected err), w\<lparr>requests := requests w @ map f before @ [f x]\<rparr>)"
proof (induction before arbitrary: w)
  case Nil
  then show ?case by (simp add: request_rejected)
next
  case (Cons b before)
  then show ?case by (simp add: request_accepted)
qed

section \<open>Properties of the cleanup\<close>

lemma cleanUpSession_accepted:
  assumes "\<forall>c\<in>set (channels session).
             rejects w (DeleteChannel (channelId c) ''Among Us: Session is over.'') = None"
    and "rejects w (EditMessage (channel session) (message session) (staleEmbed session)) = None"
  shows "cleanUpSession session w =
     (Inr (), w\<lparr>requests := requests w
                   @ map (\<lambda>c. DeleteChannel (channelId c) ''Among Us: Session is over.'')
                       (channels session)
                   @ [EditMessage (channel session) (message session) (staleEmbed session)],
                 sessions := remove1 session (sessions w)\<rparr>)"
  using assms
  by (simp add: cleanUpSession_def await_def forEach_accepted updateMessageWithSessionStale_def
        request_accepted)

lemma cleanUpSession_deletion_rejected:
  assumes "channels session = before @ c # after"
    and "\<forall>b\<in>set before.
           rejects w (DeleteChannel (channelId b) ''Among Us: Session is over.'') = None"
    and "rejects w (DeleteChannel (channelId c) ''Among Us: Session is over.'') = Some err"
  shows "cleanUpSession session w =
     (Inl (Rejected err),
      w\<lparr>requests := requests w
           @ map (\<lambda>c. DeleteChannel (channelId c) ''Among Us: Session is over.'') before
           @ [DeleteChannel (channelId c) ''Among Us: Session is over.'']\<rparr>)"
  using assms(2,3)
  by (simp add: cleanUpSession_def await_def assms(1)
        forEach_rejected[where f = "\<lambda>c. DeleteChannel (channelId c) ''Among Us: Session is over.''"])

lemma cleanUpSession_edit_rejected:
  assumes "\<forall>c\<in>set (channels session).
             rejects w (DeleteChannel (channelId c) ''Among Us: Session is over.'') = None"
    and "rejects w (EditMessage (channel session) (message session) (staleEmbed session)) = Some err"
  shows "cleanUpSession session w =
     (Inl (Rejected err),
      w\<lparr>requests := requests w
           @ map (\<lambda>c. DeleteChannel (channelId c) ''Among Us: Session is over.'')
               (channels session)
           @ [EditMessage (channel session) (message session) (staleEmbed session)]\<rparr>)"
  using assms
  by (simp add: cleanUpSession_def await_def forEach_accepted updateMessageWithSessionStale_def
        request_rejected)

lemma forEach_cleanUpSession:
  assumes "\<forall>s\<in>set ss.
       (\<forall>c\<in>set (channels s).
           rejects w (DeleteChannel (channelId c) ''Among Us: Session is over.'') = None)
       \<and> rejects w (EditMessage (channel s) (message s) (staleEmbed s)) = None"
    and "sessions w = ss"
  shows "forEach ss cleanUpSession w =
     (Inr (), w\<lparr>requests := requests w
                   @ concat (map (\<lambda>s. map (\<lambda>c. DeleteChannel (channelId c)
                                                 ''Among Us: Session is over.'') (channels s)
                                       @ [EditMessage (channel s) (message s) (staleEmbed s)]) ss),
                 sessions := []\<rparr>)"
  using assms
proof (induction ss arbitrary: w)
  case Nil
  then show ?case by simp
next
  case (Cons s ss)
  from Cons.prems have first: "cleanUpSession s w =
     (Inr (), w\<lparr>requests := requests w
                   @ map (\<lambda>c. DeleteChannel (channelId c) ''Among Us: Session is over.'')
                       (channels s)
                   @ [EditMessage (channel s) (message s) (staleEmbed s)],
                 sessions := ss\<rparr>)"
    by (simp add: cleanUpSession_accepted)
  from Cons.prems show ?case
    by (simp add: first Cons.IH)
qed

text \<open>
  Claim C3, as the code has it. The cleanup of old sessions is the function
  \<^verbatim>\<open>cleanUpOldSessions\<close>; the startup function of the sources does not call it. When it
  runs on a store of N sessions and the platform accepts its requests, it asks for the
  deletion of every channel of every session, rewrites the status message of each
  session to the stale variant, N rewrites in all, and leaves no session in the store.
\<close>

theorem C3_startup_cleanup:
  assumes "\<forall>s\<in>set (sessions w).
       (\<forall>c\<in>set (channels s).
           rejects w (DeleteChannel (channelId c) ''Among Us: Session is over.'') = None)
       \<and> rejects w (EditMessage (channel s) (message s) (staleEmbed s)) = None"
  shows "cleanUpOldSessions w =
     (Inr (), w\<lparr>requests := requests w
                   @ concat (map (\<lambda>s. map (\<lambda>c. DeleteChannel (channelId c)
                                                 ''Among Us: Session is over.'') (channels s)
                                       @ [EditMessage (channel s) (message s) (staleEmbed s)])
                               (sessions w)),
                 sessions := []\<rparr>)
    \<and> length (filter isEditMessage
                (drop (length (requests w)) (requests (snd (cleanUpOldSessions w)))))
        = length (sessions w)"
proof -
  have run: "cleanUpOldSessions w =
     (Inr (), w\<lparr>requests := requests w
                   @ concat (map (\<lambda>s. map (\<lambda>c. DeleteChannel (channelId c)
                                                 ''Among Us: Session is over.'') (channels s)
                                       @ [EditMessage (channel s) (message s) (staleEmbed s)])
                               (sessions w)),
                 sessions := []\<rparr>)"
    unfolding cleanUpOldSessions_def using assms by (rule forEach_cleanUpSession) simp
  have count: "length (filter isEditMessage
       (concat (map (\<lambda>s. map (\<lambda>c. DeleteChannel (channelId c)
                                     ''Among Us: Session is over.'') (channels s)
                           @ [EditMessage (channel s) (message s) (staleEmbed s)]) ss)))
     = length ss" for ss :: "AmongUsSession list"
    by (induction ss) (simp_all add: filter_empty_conv[THEN iffD2])
  show ?thesis by (simp add: run count)
qed

theorem C3_witness:
  "fst (cleanUpOldSessions restartedWorld) = Inr ()
   \<and> sessions (snd (cleanUpOldSessions restartedWorld)) = []
   \<and> length (filter isEditMessage (requests (snd (cleanUpOldSessions restartedWorld)))) = 2
   \<and> take 4 (requests (snd (cleanUpOldSessions restartedWorld))) =
       [DeleteChannel ''category'' ''Among Us: Session is over.'',
        DeleteChannel ''talk'' ''Among Us: Session is over.'',
        DeleteChannel ''quiet'' ''Among Us: Session is over.'',
        EditMessage ''text'' ''status'' (staleEmbed playingSession)]"
proof -
  have accepted: "\<forall>s\<in>set (sessions restartedWorld).
       (\<forall>c\<in>set (channels s).
           rejects restartedWorld (DeleteChannel (channelId c) ''Among Us: Session is over.'') = None)
       \<and> rejects restartedWorld (EditMessage (channel s) (message s) (staleEmbed s)) = None"
    by (simp add: restartedWorld_def quietWorld_def)
  from C3_startup_cleanup[OF accepted] show ?thesis
    by (simp add: restartedWorld_def quietWorld_def playingSession_def lobbySession_def)
qed

text \<open>
  The claim as the spec words it fails at the start of the process: after the startup
  function has run on a store of two sessions, with the database and the bot connected,
  both sessions are still stored and no request has been sent.
\<close>

theorem C3_startup_leaves_sessions:
  "sessions (snd (main (resolve ()) (resolve ()) ''impostor'' restartedWorld)) =
     [playingSession, lobbySession]
   \<and> requests (snd (main (resolve ()) (resolve ()) ''impostor'' restartedWorld)) = []
   \<and> console (snd (main (resolve ()) (resolve ()) ''impostor'' restartedWorld)) =
       [''[+] Starting impostor...'', ''[+] Connected to database!'',
        ''[+] Connected to Discord as impostor'']"
  by (simp add: main_def await_def consoleLog_def resolve_def restartedWorld_def quietWorld_def)

text \<open>
  Claim C8, as the code has it. \<^verbatim>\<open>cleanUpSession\<close> asks for the deletion of the
  channels of the session one after the other. When the platform accepts them all and
  the rewrite of the status message, every deletion has been asked for before the
  session is removed from the store. A deletion that the platform rejects is not
  swallowed: the cleanup is rejected with that error, the channels after it are not
  asked for, the status message is not rewritten and the session stays in the store.
\<close>

theorem C8_session_cleanup:
  "((\<forall>c\<in>set (channels session).
        rejects w (DeleteChannel (channelId c) ''Among Us: Session is over.'') = None)
    \<and> rejects w (EditMessage (channel session) (message session) (staleEmbed session)) = None
    \<longrightarrow> cleanUpSession session w =
          (Inr (), w\<lparr>requests := requests w
                   @ map (\<lambda>c. DeleteChannel (channelId c) ''Among Us: Session is over.'')
                       (channels session)
                   @ [EditMessage (channel session) (message session) (staleEmbed session)],
                 sessions := remove1 session (sessions w)\<rparr>))
   \<and> (channels session = before @ c # after
      \<and> (\<forall>b\<in>set before.
            rejects w (DeleteChannel (channelId b) ''Among Us: Session is over.'') = None)
      \<and> rejects w (DeleteChannel (channelId c) ''Among Us: Session is over.'') = Some err
    \<longrightarrow> cleanUpSession session w =
          (Inl (Rejected err),
           w\<lparr>requests := requests w
             @ map (\<lambda>c. DeleteChannel (channelId c) ''Among Us: Session is over.'') before
             @ [DeleteChannel (channelId c) ''Among Us: Session is over.'']\<rparr>))"
  using cleanUpSession_accepted[of session w]
    cleanUpSession_deletion_rejected[of session before c after w err]
  by blast

theorem C8_witness:
  "cleanUpSession playingSession playingWorld =
     (Inr (), playingWorld\<lparr>requests :=
         [DeleteChannel ''category'' ''Among Us: Session is over.'',
          DeleteChannel ''talk'' ''Among Us: Session is over.'',
          DeleteChannel ''quiet'' ''Among Us: Session is over.'',
          EditMessage ''text'' ''status'' (staleEmbed playingSession)],
        sessions := []\<rparr>)
   \<and> cleanUpSession playingSession goneWorld =
     (Inl (Rejected ''Unknown Channel''),
      goneWorld\<lparr>requests :=
         [DeleteChannel ''category'' ''Among Us: Session is over.'',
          DeleteChannel ''talk'' ''Among Us: Session is over.'']\<rparr>)"
proof -
  have accepted: "(\<forall>c\<in>set (channels playingSession).
        rejects playingWorld (DeleteChannel (channelId c) ''Among Us: Session is over.'') = None)
    \<and> rejects playingWorld (EditMessage (channel playingSession) (message playingSession)
          (staleEmbed playingSession)) = None"
    by (simp add: playingWorld_def quietWorld_def)
  have gone: "channels playingSession =
        [\<lparr>channelId = ''category'', type = CATEGORY, invite = None\<rparr>]
        @ \<lparr>channelId = ''talk'', type = TALKING, invite = Some ''inv''\<rparr>
        # [\<lparr>channelId = ''quiet'', type = SILENCE, invite = None\<rparr>]
      \<and> (\<forall>b\<in>set [\<lparr>channelId = ''category'', type = CATEGORY, invite = None\<rparr>].
            rejects goneWorld (DeleteChannel (channelId b) ''Among Us: Session is over.'') = None)
      \<and> rejects goneWorld (DeleteChannel
            (channelId \<lparr>channelId = ''talk'', type = TALKING, invite = Some ''inv''\<rparr>)
            ''Among Us: Session is over.'') = Some ''Unknown Channel''"
    by (simp add: playingSession_def goneWorld_def)
  from C8_session_cleanup[of playingSession playingWorld] accepted
    C8_session_cleanup[of playingSession goneWorld
      "[\<lparr>channelId = ''category'', type = CATEGORY, invite = None\<rparr>]"
      "\<lparr>channelId = ''talk'', type = TALKING, invite = Some ''inv''\<rparr>"
      "[\<lparr>channelId = ''quiet'', type = SILENCE, invite = None\<rparr>]" "''Unknown Channel''"] gone
  show ?thesis
    by (simp add: playingSession_def playingWorld_def goneWorld_def quietWorld_def)
qed

text \<open>
  The claim as the spec words it fails when the platform rejects the deletion of the
  second of three channels: the cleanup is rejected, the third deletion is never asked
  for and the session is still stored.
\<close>

theorem C8_deletion_failure_aborts:
  "fst (cleanUpSession playingSession goneWorld) = Inl (Rejected ''Unknown Channel'')
   \<and> requests (snd (cleanUpSession playingSession goneWorld)) =
       [DeleteChannel ''category'' ''Among Us: Session is over.'',
        DeleteChannel ''talk'' ''Among Us: Session is over.'']
   \<and> sessions (snd (cleanUpSession playingSession goneWorld)) = [playingSession]"
  by (simp add: cleanUpSession_def await_def request_def goneWorld_def playingWorld_def
        quietWorld_def playingSession_def)


section \<open>Properties of the reconciliations\<close>


lemma batchOutcome_resolved:
  "batchOutcome w cs (Inr ()) = (\<forall>c\<in>set cs. rejects w c = None)"
  by (simp add: batchOutcome_def list_all_iff)

lemma batchOutcome_rejected:
  "batchOutcome w cs (Inl e) = (\<exists>c\<in>set cs. \<exists>err. rejects w c = Some err \<and> e = Rejected err)"
  by (auto simp: batchOutcome_def list_ex_iff split: option.splits)

lemma batchOutcome_accepted:
  "batchOutcome w cs r \<Longrightarrow> \<forall>c\<in>set cs. rejects w c = None \<Longrightarrow> r = Inr ()"
  by (cases r) (auto simp: batchOutcome_rejected)

lemma batchOutcome_frame: "batchOutcome (w\<lparr>requests := q\<rparr>) = batchOutcome w"
  by (auto simp: batchOutcome_def fun_eq_iff split: sum.splits)

lemma rejections_Cons:
  "rejections (r # rs) = (case r of Inl e \<Rightarrow> e # rejections rs | Inr u \<Rightarrow> rejections rs)"
  by (simp add: rejections_def List.map_filter_simps split: sum.splits)

lemma rejections_Nil: "rejections [] = []"
  by (simp add: rejections_def List.map_filter_simps)

lemma rejections_set: "e \<in> set (rejections rs) = (Inl e \<in> set rs)"
  by (induction rs) (auto simp: rejections_Cons rejections_Nil split: sum.splits)

text \<open>The outcome of \<^verbatim>\<open>Promise.all\<close>: resolved with no rejection, or one of the rejections.\<close>

lemma promiseAll_outcome:
  "snd (promiseAll ps w) = snd (settleAll ps w)"
  "(fst (promiseAll ps w) = Inr ()) = (rejections (fst (settleAll ps w)) = [])"
  "fst (promiseAll ps w) = Inl e \<Longrightarrow> Inl e \<in> set (fst (settleAll ps w))"
proof -
  obtain rs w' where settled: "settleAll ps w = (rs, w')" by (cases "settleAll ps w")
  show "snd (promiseAll ps w) = snd (settleAll ps w)"
    by (simp add: promiseAll_def settled)
  show "(fst (promiseAll ps w) = Inr ()) = (rejections (fst (settleAll ps w)) = [])"
    by (simp add: promiseAll_def settled split: list.splits)
  show "Inl e \<in> set (fst (settleAll ps w))" if rejected: "fst (promiseAll ps w) = Inl e"
  proof (cases "rejections rs")
    case Nil
    with rejected show ?thesis by (simp add: promiseAll_def settled)
  next
    case (Cons e0 es)
    with rejected have "e = (e0 # es) ! (firstReply w (e0 # es) mod length (e0 # es))"
      by (simp add: promiseAll_def settled)
    then have "e \<in> set (e0 # es)"
      by (metis length_greater_0_conv list.distinct(1) mod_less_divisor nth_mem)
    with Cons show ?thesis by (simp add: rejections_set[symmetric] settled)
  qed
qed

lemma settleAll_requests:
  "settleAll (map request cs) w =
     (map (\<lambda>c. case rejects w c of Some err \<Rightarrow> Inl (Rejected err) | None \<Rightarrow> Inr ()) cs,
      w\<lparr>requests := requests w @ cs\<rparr>)"
proof (induction cs arbitrary: w)
  case Nil
  then show ?case by simp
next
  case (Cons c cs)
  show ?case
    by (cases "rejects w c") (simp_all add: Cons.IH request_accepted request_rejected)
qed

lemma promiseAll_batch:
  "snd (promiseAll (map request cs) w) = w\<lparr>requests := requests w @ cs\<rparr>"
  "batchOutcome w cs (fst (promiseAll (map request cs) w))"
proof -
  show "snd (promiseAll (map request cs) w) = w\<lparr>requests := requests w @ cs\<rparr>"
    by (simp add: promiseAll_outcome(1) settleAll_requests)
  show "batchOutcome w cs (fst (promiseAll (map request cs) w))"
  proof (cases "fst (promiseAll (map request cs) w)")
    case (Inl e)
    then have "Inl e \<in> set (fst (settleAll (map request cs) w))"
      by (rule promiseAll_outcome(3))
    then show ?thesis
      by (auto simp: Inl settleAll_requests batchOutcome_rejected split: option.splits)
  next
    case (Inr u)
    then have "rejections (fst (settleAll (map request cs) w)) = []"
      by (simp add: promiseAll_outcome(2))
    then have "\<forall>e. Inl e \<notin> set (fst (settleAll (map request cs) w))"
      by (simp add: rejections_set[symmetric])
    then have "\<forall>c\<in>set cs. rejects w c = None"
      by (force simp: settleAll_requests split: option.splits)
    with Inr show ?thesis by (simp add: batchOutcome_resolved)
  qed
qed

lemma promiseAll_batch_map:
  "snd (promiseAll (map (\<lambda>x. request (f x)) xs) w) = w\<lparr>requests := requests w @ map f xs\<rparr>"
  "batchOutcome w (map f xs) (fst (promiseAll (map (\<lambda>x. request (f x)) xs) w))"
  using promiseAll_batch[where cs = "map f xs" and w = w] by (simp_all add: comp_def)

lemma moveAllPlayers_batch:
  "snd (moveAllPlayers session idFrom idTo w) =
     w\<lparr>requests := requests w
         @ map (\<lambda>x. EditGuildMember (guild session) x idTo) (getMembersInChannel w idFrom)\<rparr>"
  "batchOutcome w (map (\<lambda>x. EditGuildMember (guild session) x idTo) (getMembersInChannel w idFrom))
     (fst (moveAllPlayers session idFrom idTo w))"
  by (simp_all add: moveAllPlayers_def promiseAll_batch_map)


lemma settleAll_moveAllPlayers:
  assumes "settleAll (map (\<lambda>x. moveAllPlayers session (channelId x) idTo) chs) w = (rs, w')"
  shows "w' = w\<lparr>requests := requests w
             @ concat (map (\<lambda>x. map (\<lambda>m. EditGuildMember (guild session) m idTo)
                                 (getMembersInChannel w (channelId x))) chs)\<rparr>
     \<and> (\<forall>e. Inl e \<in> set rs \<longrightarrow>
           batchOutcome w (concat (map (\<lambda>x. map (\<lambda>m. EditGuildMember (guild session) m idTo)
                                 (getMembersInChannel w (channelId x))) chs)) (Inl e))
     \<and> (rejections rs = [] \<longrightarrow>
           (\<forall>c\<in>set (concat (map (\<lambda>x. map (\<lambda>m. EditGuildMember (guild session) m idTo)
                                 (getMembersInChannel w (channelId x))) chs)). rejects w c = None))"
  using assms
proof (induction chs arbitrary: w rs w')
  case Nil
  then show ?case by (auto simp: rejections_Nil)
next
  case (Cons ch chs)
  define batch where "batch = map (\<lambda>m. EditGuildMember (guild session) m idTo)
      (getMembersInChannel w (channelId ch))"
  define w1 where "w1 = w\<lparr>requests := requests w @ batch\<rparr>"
  define r where "r = fst (moveAllPlayers session (channelId ch) idTo w)"
  have head: "moveAllPlayers session (channelId ch) idTo w = (r, w1)"
    using moveAllPlayers_batch(1)[of session "channelId ch" idTo w]
    by (simp add: r_def w1_def batch_def prod_eq_iff)
  have outcome: "batchOutcome w batch r"
    unfolding r_def batch_def by (rule moveAllPlayers_batch(2))
  obtain rs1 w2 where tail:
    "settleAll (map (\<lambda>x. moveAllPlayers session (channelId x) idTo) chs) w1 = (rs1, w2)"
    by (cases "settleAll (map (\<lambda>x. moveAllPlayers session (channelId x) idTo) chs) w1")
  from Cons.prems head tail have shape: "rs = r # rs1" "w' = w2"
    by simp_all
  define others where "others = concat (map (\<lambda>x. map (\<lambda>m. EditGuildMember (guild session) m idTo)
      (getMembersInChannel w (channelId x))) chs)"
  from Cons.IH[OF tail]
  have ih: "w2 = w1\<lparr>requests := requests w1 @ others\<rparr>"
    "\<forall>e. Inl e \<in> set rs1 \<longrightarrow> batchOutcome w others (Inl e)"
    "rejections rs1 = [] \<longrightarrow> (\<forall>c\<in>set others. rejects w c = None)"
    by (simp_all add: w1_def others_def batchOutcome_frame)
  have one: "w' = w\<lparr>requests := requests w @ batch @ others\<rparr>"
    by (simp add: shape ih(1) w1_def)
  have two: "batchOutcome w (batch @ others) (Inl e)" if "Inl e \<in> set rs" for e
  proof -
    from that shape consider "r = Inl e" | "Inl e \<in> set rs1" by auto
    then show ?thesis
    proof cases
      case 1
      with outcome show ?thesis by (auto simp: batchOutcome_rejected)
    next
      case 2
      with ih(2) have "batchOutcome w others (Inl e)" by blast
      then show ?thesis by (auto simp: batchOutcome_rejected)
    qed
  qed
  have three: "\<forall>c\<in>set (batch @ others). rejects w c = None" if "rejections rs = []"
  proof -
    from that shape have "r = Inr ()" and "rejections rs1 = []"
      by (auto simp: rejections_Cons split: sum.splits)
    with outcome ih(3) show ?thesis by (auto simp: batchOutcome_resolved)
  qed
  from one two three show ?case
    by (simp add: batch_def others_def)
qed

lemma movePlayersToTalkingChannel_batch:
  assumes "find (\<lambda>x. type x = TALKING) (channels session) = Some talking"
  shows "snd (movePlayersToTalkingChannel session w) =
           w\<lparr>requests := requests w @ batchToTalking session talking w\<rparr>"
    and "batchOutcome w (batchToTalking session talking w)
           (fst (movePlayersToTalkingChannel session w))"
proof -
  define ps where "ps = map (\<lambda>x. moveAllPlayers session (channelId x) (channelId talking))
      (filter (\<lambda>x. type x \<in> set SILENCE_CHANNELS) (channels session))"
  have run: "movePlayersToTalkingChannel session w = promiseAll ps w"
    using assms by (simp add: movePlayersToTalkingChannel_def Let_def ps_def)
  obtain rs w' where settled: "settleAll ps w = (rs, w')" by (cases "settleAll ps w")
  from settleAll_moveAllPlayers[OF settled[unfolded ps_def]]
  have facts: "w' = w\<lparr>requests := requests w @ batchToTalking session talking w\<rparr>"
    "\<forall>e. Inl e \<in> set rs \<longrightarrow> batchOutcome w (batchToTalking session talking w) (Inl e)"
    "rejections rs = [] \<longrightarrow> (\<forall>c\<in>set (batchToTalking session talking w). rejects w c = None)"
    by (simp_all add: batchToTalking_def)
  show "snd (movePlayersToTalkingChannel session w) =
           w\<lparr>requests := requests w @ batchToTalking session talking w\<rparr>"
    by (simp add: run promiseAll_outcome(1) settled facts(1))
  show "batchOutcome w (batchToTalking session talking w)
           (fst (movePlayersToTalkingChannel session w))"
  proof (cases "fst (movePlayersToTalkingChannel session w)")
    case (Inl e)
    then have "Inl e \<in> set rs"
      using promiseAll_outcome(3)[of ps w e] by (simp add: run settled)
    with facts(2) Inl show ?thesis by simp
  next
    case (Inr u)
    then have "rejections rs = []"
      using promiseAll_outcome(2)[of ps w] by (simp add: run settled)
    with facts(3) Inr show ?thesis by (simp add: batchOutcome_resolved)
  qed
qed

lemma movePlayersToSilenceChannel_batch:
  assumes "find (\<lambda>x. type x = TALKING) (channels session) = Some talking"
    and "find (\<lambda>x. type x = SILENCE) (channels session) = Some silence"
    and "adminPhase isMemberAdmin session talking w = (Inr (), session', w')"
  shows "snd (movePlayersToSilenceChannel isMemberAdmin session w) =
           (session',
            w'\<lparr>requests := requests w' @ batchToSilence isMemberAdmin session' talking silence w\<rparr>)"
    and "batchOutcome w' (batchToSilence isMemberAdmin session' talking silence w)
           (fst (movePlayersToSilenceChannel isMemberAdmin session w))"
proof -
  define ps where "ps = map (\<lambda>id. request (EditGuildMember (guild session') id (channelId silence)))
      (filter (\<lambda>x. \<not> isMemberAdmin x) (getMembersInChannel w (channelId talking)))"
  have run: "movePlayersToSilenceChannel isMemberAdmin session w =
      (fst (promiseAll ps w'), session', snd (promiseAll ps w'))"
    using assms
    by (simp add: movePlayersToSilenceChannel_def Let_def adminPhase_def ps_def
          split: prod.splits)
  show "snd (movePlayersToSilenceChannel isMemberAdmin session w) =
           (session',
            w'\<lparr>requests := requests w' @ batchToSilence isMemberAdmin session' talking silence w\<rparr>)"
    by (simp add: run ps_def promiseAll_batch_map(1) batchToSilence_def)
  show "batchOutcome w' (batchToSilence isMemberAdmin session' talking silence w)
           (fst (movePlayersToSilenceChannel isMemberAdmin session w))"
    using promiseAll_batch_map(2)[where w = w'
        and f = "\<lambda>id. EditGuildMember (guild session') id (channelId silence)"
        and xs = "filter (\<lambda>x. \<not> isMemberAdmin x) (getMembersInChannel w (channelId talking))"]
    by (simp add: run ps_def batchToSilence_def)
qed






text \<open>
  Claim C4, as the code has it. Both batches are sent whole: the moves to the talking
  channel, and, once the loop over the administrators has ended without a rejection, the
  moves of the ordinary players to the silence channel. Every request of the batch is
  sent whatever the platform answers to the others, so a rejected move keeps no other
  move of the batch from being asked for. The rejection is not reported and kept in:
  the reconciliation is itself rejected, with the rejection of one of the moves of the
  batch, and is resolved only when the platform accepts every move of the batch.
\<close>

theorem C4_batch_failures:
  "(find (\<lambda>x. type x = TALKING) (channels session) = Some talking \<longrightarrow>
      snd (movePlayersToTalkingChannel session w) =
        w\<lparr>requests := requests w @ batchToTalking session talking w\<rparr>
      \<and> batchOutcome w (batchToTalking session talking w)
          (fst (movePlayersToTalkingChannel session w)))
   \<and> (find (\<lambda>x. type x = TALKING) (channels session) = Some talking
       \<and> find (\<lambda>x. type x = SILENCE) (channels session) = Some silence
       \<and> adminPhase isMemberAdmin session talking w = (Inr (), session', w') \<longrightarrow>
      snd (movePlayersToSilenceChannel isMemberAdmin session w) =
        (session',
         w'\<lparr>requests := requests w' @ batchToSilence isMemberAdmin session' talking silence w\<rparr>)
      \<and> batchOutcome w' (batchToSilence isMemberAdmin session' talking silence w)
          (fst (movePlayersToSilenceChannel isMemberAdmin session w)))
   \<and> batchOutcome w cs (Inr ()) = (\<forall>c\<in>set cs. rejects w c = None)
   \<and> batchOutcome w cs (Inl e) =
       (\<exists>c\<in>set cs. \<exists>err. rejects w c = Some err \<and> e = Rejected err)"
  using movePlayersToTalkingChannel_batch[of session talking w]
    movePlayersToSilenceChannel_batch[of session talking silence isMemberAdmin w session' w']
    batchOutcome_resolved[of w cs] batchOutcome_rejected[of w cs e]
  by blast

theorem C4_witness:
  "movePlayersToTalkingChannel playingSession silencedWorld =
     (Inl (Rejected ''Unknown Member''),
      silencedWorld\<lparr>requests := [EditGuildMember ''guild'' ''bob'' ''talk'',
                                 EditGuildMember ''guild'' ''carol'' ''talk'']\<rparr>)
   \<and> movePlayersToSilenceChannel (\<lambda>m. False) playingSession talkingWorld =
     (Inr (), playingSession,
      talkingWorld\<lparr>requests := [EditGuildMember ''guild'' ''alice'' ''quiet'',
                                EditGuildMember ''guild'' ''bob'' ''quiet'']\<rparr>)"
proof -
  define talk where "talk = \<lparr>channelId = ''talk'', type = TALKING, invite = Some ''inv''\<rparr>"
  define quiet where "quiet = \<lparr>channelId = ''quiet'', type = SILENCE, invite = None\<rparr>"
  have talking: "find (\<lambda>x. type x = TALKING) (channels playingSession) = Some talk"
    by (simp add: playingSession_def talk_def)
  have silence: "find (\<lambda>x. type x = SILENCE) (channels playingSession) = Some quiet"
    by (simp add: playingSession_def quiet_def)
  have phase: "adminPhase (\<lambda>m. False) playingSession talk talkingWorld =
      (Inr (), playingSession, talkingWorld)"
    by (simp add: adminPhase_def)
  have to_talking: "batchToTalking playingSession talk silencedWorld =
      [EditGuildMember ''guild'' ''bob'' ''talk'', EditGuildMember ''guild'' ''carol'' ''talk'']"
    by (simp add: batchToTalking_def playingSession_def SILENCE_CHANNELS_def talk_def
          getMembersInChannel_def silencedWorld_def playingWorld_def quietWorld_def)
  have to_silence: "batchToSilence (\<lambda>m. False) playingSession talk quiet talkingWorld =
      [EditGuildMember ''guild'' ''alice'' ''quiet'', EditGuildMember ''guild'' ''bob'' ''quiet'']"
    by (simp add: batchToSilence_def playingSession_def getMembersInChannel_def talk_def
          quiet_def talkingWorld_def playingWorld_def quietWorld_def)
  have refusal: "rejects silencedWorld c = Some err \<Longrightarrow> err = ''Unknown Member''" for c err
    by (simp add: silencedWorld_def split: if_splits)
  have refused: "rejects silencedWorld (EditGuildMember ''guild'' ''bob'' ''talk'') \<noteq> None"
    by (simp add: silencedWorld_def)
  have accepted: "rejects talkingWorld c = None" for c
    by (simp add: talkingWorld_def playingWorld_def quietWorld_def)
  have none1: "requests silencedWorld = []"
    by (simp add: silencedWorld_def playingWorld_def quietWorld_def)
  have none2: "requests talkingWorld = []"
    by (simp add: talkingWorld_def playingWorld_def quietWorld_def)
  note to_talk = C4_batch_failures[of playingSession talk silencedWorld]
  note to_quiet = C4_batch_failures[of playingSession talk talkingWorld quiet "\<lambda>m. False"
      playingSession talkingWorld]
  from to_talk talking
  have sent1: "snd (movePlayersToTalkingChannel playingSession silencedWorld) =
      silencedWorld\<lparr>requests := [EditGuildMember ''guild'' ''bob'' ''talk'',
                                 EditGuildMember ''guild'' ''carol'' ''talk'']\<rparr>"
    and out1: "batchOutcome silencedWorld
      [EditGuildMember ''guild'' ''bob'' ''talk'', EditGuildMember ''guild'' ''carol'' ''talk'']
      (fst (movePlayersToTalkingChannel playingSession silencedWorld))"
    by (simp_all add: to_talking none1)
  have res1: "fst (movePlayersToTalkingChannel playingSession silencedWorld) =
      Inl (Rejected ''Unknown Member'')"
  proof (cases "fst (movePlayersToTalkingChannel playingSession silencedWorld)")
    case (Inl e)
    with out1 to_talk obtain c err where "rejects silencedWorld c = Some err" "e = Rejected err"
      by auto
    with refusal Inl show ?thesis by simp
  next
    case (Inr u)
    with out1 to_talk refused show ?thesis by auto
  qed
  from to_quiet talking silence phase
  have sent2: "snd (movePlayersToSilenceChannel (\<lambda>m. False) playingSession talkingWorld) =
      (playingSession,
       talkingWorld\<lparr>requests := [EditGuildMember ''guild'' ''alice'' ''quiet'',
                                 EditGuildMember ''guild'' ''bob'' ''quiet'']\<rparr>)"
    and out2: "batchOutcome talkingWorld
      [EditGuildMember ''guild'' ''alice'' ''quiet'', EditGuildMember ''guild'' ''bob'' ''quiet'']
      (fst (movePlayersToSilenceChannel (\<lambda>m. False) playingSession talkingWorld))"
    by (simp_all add: to_silence none2)
  from out2 accepted
  have res2: "fst (movePlayersToSilenceChannel (\<lambda>m. False) playingSession talkingWorld) = Inr ()"
    by (auto intro: batchOutcome_accepted)
  from sent1 res1 sent2 res2 show ?thesis
    by (simp add: prod_eq_iff)
qed

text \<open>
  The claim as the spec words it fails when the platform rejects the move of one of
  two players: the rejection comes out of the reconciliation.
\<close>

theorem C4_failure_propagates:
  "fst (movePlayersToTalkingChannel playingSession silencedWorld) = Inl (Rejected ''Unknown Member'')"
  by (simp add: movePlayersToTalkingChannel_def Let_def playingSession_def SILENCE_CHANNELS_def
        moveAllPlayers_def getMembersInChannel_def silencedWorld_def playingWorld_def
        quietWorld_def request_def promiseAll_def rejections_def List.map_filter_simps)

text \<open>
  With both moves rejected and the reply to the second arriving first, the
  reconciliation is rejected with the second rejection; both moves were asked for.
\<close>

lemma rejection_in_reply_order:
  "movePlayersToTalkingChannel playingSession racingWorld =
     (Inl (Rejected ''Missing Permissions''),
      racingWorld\<lparr>requests := [EditGuildMember ''guild'' ''bob'' ''talk'',
                               EditGuildMember ''guild'' ''carol'' ''talk'']\<rparr>)"
  by (simp add: movePlayersToTalkingChannel_def Let_def playingSession_def SILENCE_CHANNELS_def
        moveAllPlayers_def getMembersInChannel_def racingWorld_def playingWorld_def
        quietWorld_def request_def promiseAll_def rejections_def List.map_filter_simps)

lemma request_rejects: "rejects (snd (request c w)) = rejects w"
  by (simp add: request_snd)

lemma handle_rejects: "rejects (snd (handle e w)) = rejects w"
proof (cases e)
  case (Join member newChannel)
  then show ?thesis
    by (simp add: onVoiceJoin_def Let_def request_rejects split: option.splits prod.splits)
next
  case (Leave member oldChannel)
  then show ?thesis by (simp add: onVoiceLeave_def split: option.splits)
next
  case (Change member newChannel oldChannel)
  then show ?thesis
    by (simp add: onVoiceChange_steps onVoiceJoin_def onVoiceLeave_def Let_def request_rejects
          split: option.splits prod.splits)
qed

lemma dispatch_rejects: "rejects (dispatch es w) = rejects w"
  by (induction es arbitrary: w) (simp_all add: handle_rejects)

lemma members_moved:
  "newChannel \<noteq> oldChannel \<Longrightarrow>
     getMembersInChannel (dispatch (movedNotifications g ms newChannel oldChannel) w) newChannel =
       getMembersInChannel w newChannel @ ms"
proof (induction ms arbitrary: w)
  case Nil
  then show ?case by (simp add: movedNotifications_def)
next
  case (Cons m ms)
  from Cons.prems have "getMembersInChannel (dispatch (movedNotifications g ms newChannel oldChannel)
        (snd (onVoiceChange \<lparr>memberId = m, memberGuild = g\<rparr> newChannel oldChannel w))) newChannel
      = getMembersInChannel (snd (onVoiceChange \<lparr>memberId = m, memberGuild = g\<rparr>
            newChannel oldChannel w)) newChannel @ ms"
    by (rule Cons.IH)
  with Cons.prems show ?case
    by (simp add: movedNotifications_def onVoiceChange_steps members_join members_leave)
qed

lemma batchToTalking_covers:
  assumes "find (\<lambda>x. type x = SILENCE) (channels session) = Some silence"
    and "m \<in> set (getMembersInChannel w (channelId silence))"
  shows "EditGuildMember (guild session) m (channelId talking) \<in> set (batchToTalking session talking w)"
proof -
  from assms(1) have "silence \<in> set (channels session)" and "type silence = SILENCE"
    by (auto simp: find_Some_iff)
  with assms(2) show ?thesis
    by (auto simp: batchToTalking_def SILENCE_CHANNELS_def)
qed

lemma batchToTalking_moves:
  "c \<in> set (batchToTalking session talking w) \<Longrightarrow>
     \<exists>m. c = EditGuildMember (guild session) m (channelId talking)"
  by (auto simp: batchToTalking_def)

lemma lastMove_append:
  "lastMove (cs @ ds) m = (case lastMove ds m of Some ch \<Rightarrow> Some ch | None \<Rightarrow> lastMove cs m)"
  by (induction cs) (auto split: option.splits)

lemma lastMove_only:
  assumes "\<forall>c\<in>set ds. \<exists>m'. c = EditGuildMember g m' ch"
  shows "lastMove ds m = Some x \<Longrightarrow> x = ch"
  using assms by (induction ds) (auto split: option.splits if_splits)

lemma lastMove_to:
  assumes "\<forall>c\<in>set ds. \<exists>m'. c = EditGuildMember g m' ch"
    and "EditGuildMember g m ch \<in> set ds"
  shows "lastMove ds m = Some ch"
  using assms
proof (induction ds)
  case Nil
  then show ?case by simp
next
  case (Cons d ds)
  then have rest: "\<forall>c\<in>set ds. \<exists>m'. c = EditGuildMember g m' ch" by simp
  show ?case
  proof (cases "lastMove ds m")
    case None
    with Cons rest show ?thesis by (auto split: option.splits)
  next
    case (Some x)
    with rest have "x = ch" using lastMove_only by blast
    with Some show ?thesis by simp
  qed
qed

lemma lastMove_batch:
  assumes "\<forall>c\<in>set ds. \<exists>m'. c = EditGuildMember g m' ch"
    and "EditGuildMember g m ch \<in> set ds"
  shows "lastMove (cs @ ds) m = Some ch"
  using lastMove_to[OF assms] by (simp add: lastMove_append)

text \<open>
  Claim C9, as the code has it. The reconciliations read the index and do not write it:
  it is written by the voice handlers. For a session with a TALKING and a SILENCE
  channel and no administrator in the TALKING channel, on a platform that accepts every
  request: the move to silence asks for the move of every member the index has in the
  TALKING channel; once the platform's notifications of these moves have been handled
  by \<^verbatim>\<open>onVoiceChange\<close>, the move to talking is resolved, every move it asks for is to
  the TALKING channel, one of them is for each of those members, and the last move
  asked for each of those members is the one to the TALKING channel.
\<close>

theorem C9_round_trip:
  assumes talking: "find (\<lambda>x. type x = TALKING) (channels session) = Some talking"
    and silence: "find (\<lambda>x. type x = SILENCE) (channels session) = Some silence"
    and apart: "channelId silence \<noteq> channelId talking"
    and ordinary: "\<forall>m\<in>set (getMembersInChannel w (channelId talking)). \<not> isMemberAdmin m"
    and accepted: "\<forall>c. rejects w c = None"
    and silenced: "movePlayersToSilenceChannel isMemberAdmin session w = (r1, session1, w1)"
    and notified: "w2 = dispatch (movedNotifications (guild session)
                         (getMembersInChannel w (channelId talking))
                         (channelId silence) (channelId talking)) w1"
    and restored: "movePlayersToTalkingChannel session1 w2 = (r3, w3)"
  shows "r1 = Inr () \<and> session1 = session
     \<and> requests w1 = requests w
          @ map (\<lambda>m. EditGuildMember (guild session) m (channelId silence))
              (getMembersInChannel w (channelId talking))
     \<and> r3 = Inr ()
     \<and> (\<exists>sent. requests w3 = requests w2 @ sent
           \<and> (\<forall>c\<in>set sent. \<exists>m. c = EditGuildMember (guild session) m (channelId talking))
           \<and> (\<forall>m\<in>set (getMembersInChannel w (channelId talking)).
                 EditGuildMember (guild session) m (channelId talking) \<in> set sent))
     \<and> (\<forall>m\<in>set (getMembersInChannel w (channelId talking)).
           lastMove (requests w3) m = Some (channelId talking))"
proof -
  from ordinary have none: "filter isMemberAdmin (getMembersInChannel w (channelId talking)) = []"
    by (simp add: filter_empty_conv)
  from ordinary have all: "filter (\<lambda>x. \<not> isMemberAdmin x) (getMembersInChannel w (channelId talking))
      = getMembersInChannel w (channelId talking)"
    by (simp add: filter_id_conv)
  have phase: "adminPhase isMemberAdmin session talking w = (Inr (), session, w)"
    by (simp add: adminPhase_def none)
  from movePlayersToSilenceChannel_batch[OF talking silence phase] silenced
  have sent1: "session1 = session"
    "w1 = w\<lparr>requests := requests w @ batchToSilence isMemberAdmin session talking silence w\<rparr>"
    and out1: "batchOutcome w (batchToSilence isMemberAdmin session talking silence w) r1"
    by simp_all
  from out1 accepted have "r1 = Inr ()"
    by (auto intro: batchOutcome_accepted)
  with sent1 have first: "r1 = Inr ()" "session1 = session"
    "w1 = w\<lparr>requests := requests w @ batchToSilence isMemberAdmin session talking silence w\<rparr>"
    by simp_all
  have batch1: "batchToSilence isMemberAdmin session talking silence w =
      map (\<lambda>m. EditGuildMember (guild session) m (channelId silence))
              (getMembersInChannel w (channelId talking))"
    by (simp add: batchToSilence_def all)
  from notified have rej2: "rejects w2 = rejects w"
    by (simp add: dispatch_rejects first(3))
  from notified apart
  have inside: "getMembersInChannel w2 (channelId silence) =
      getMembersInChannel w1 (channelId silence) @ getMembersInChannel w (channelId talking)"
    by (simp add: members_moved)
  from movePlayersToTalkingChannel_batch[OF talking, of w2] restored first(2)
  have sent3: "w3 = w2\<lparr>requests := requests w2 @ batchToTalking session talking w2\<rparr>"
    and out3: "batchOutcome w2 (batchToTalking session talking w2) r3"
    by simp_all
  from out3 accepted rej2 have "r3 = Inr ()"
    by (auto intro: batchOutcome_accepted)
  with sent3 have last: "r3 = Inr ()" "requests w3 = requests w2 @ batchToTalking session talking w2"
    by simp_all
  have covered: "\<forall>m\<in>set (getMembersInChannel w (channelId talking)).
      EditGuildMember (guild session) m (channelId talking) \<in> set (batchToTalking session talking w2)"
    using batchToTalking_covers[OF silence] inside by simp
  have only: "\<forall>c\<in>set (batchToTalking session talking w2).
      \<exists>m. c = EditGuildMember (guild session) m (channelId talking)"
    using batchToTalking_moves by blast
  have settled: "\<forall>m\<in>set (getMembersInChannel w (channelId talking)).
      lastMove (requests w3) m = Some (channelId talking)"
    using covered only by (simp add: last(2) lastMove_batch)
  from first batch1 last covered only settled show ?thesis by auto
qed


theorem C9_witness:
  "fst (movePlayersToSilenceChannel (\<lambda>m. False) playingSession talkingWorld) = Inr ()
   \<and> fst (movePlayersToTalkingChannel playingSession
        (dispatch (movedNotifications ''guild'' [''alice'', ''bob''] ''quiet'' ''talk'')
           (snd (snd (movePlayersToSilenceChannel (\<lambda>m. False) playingSession talkingWorld)))))
       = Inr ()
   \<and> EditGuildMember ''guild'' ''alice'' ''talk'' \<in> set (requests (snd
        (movePlayersToTalkingChannel playingSession
          (dispatch (movedNotifications ''guild'' [''alice'', ''bob''] ''quiet'' ''talk'')
             (snd (snd (movePlayersToSilenceChannel (\<lambda>m. False) playingSession talkingWorld)))))))
   \<and> EditGuildMember ''guild'' ''bob'' ''talk'' \<in> set (requests (snd
        (movePlayersToTalkingChannel playingSession
          (dispatch (movedNotifications ''guild'' [''alice'', ''bob''] ''quiet'' ''talk'')
             (snd (snd (movePlayersToSilenceChannel (\<lambda>m. False) playingSession talkingWorld)))))))
   \<and> lastMove (requests (snd
        (movePlayersToTalkingChannel playingSession
          (dispatch (movedNotifications ''guild'' [''alice'', ''bob''] ''quiet'' ''talk'')
             (snd (snd (movePlayersToSilenceChannel (\<lambda>m. False) playingSession talkingWorld)))))))
        ''alice'' = Some ''talk''"
proof -
  define silenced where
    "silenced = movePlayersToSilenceChannel (\<lambda>m. False) playingSession talkingWorld"
  define w2 where
    "w2 = dispatch (movedNotifications ''guild'' [''alice'', ''bob''] ''quiet'' ''talk'')
            (snd (snd silenced))"
  define restored where
    "restored = movePlayersToTalkingChannel (fst (snd silenced)) w2"
  have talking: "find (\<lambda>x. type x = TALKING) (channels playingSession) =
      Some \<lparr>channelId = ''talk'', type = TALKING, invite = Some ''inv''\<rparr>"
    by (simp add: playingSession_def)
  have silence: "find (\<lambda>x. type x = SILENCE) (channels playingSession) =
      Some \<lparr>channelId = ''quiet'', type = SILENCE, invite = None\<rparr>"
    by (simp add: playingSession_def)
  have apart: "channelId \<lparr>channelId = ''quiet'', type = SILENCE, invite = None\<rparr>
      \<noteq> channelId \<lparr>channelId = ''talk'', type = TALKING, invite = Some ''inv''\<rparr>"
    by simp
  have present: "getMembersInChannel talkingWorld ''talk'' = [''alice'', ''bob'']"
    by (simp add: getMembersInChannel_def talkingWorld_def)
  have ordinary: "\<forall>m\<in>set (getMembersInChannel talkingWorld
      (channelId \<lparr>channelId = ''talk'', type = TALKING, invite = Some ''inv''\<rparr>)). \<not> (\<lambda>m. False) m"
    by simp
  have accepted: "\<forall>c. rejects talkingWorld c = None"
    by (simp add: talkingWorld_def playingWorld_def quietWorld_def)
  have run1: "movePlayersToSilenceChannel (\<lambda>m. False) playingSession talkingWorld =
      (fst silenced, fst (snd silenced), snd (snd silenced))"
    by (simp add: silenced_def)
  have notified: "w2 = dispatch (movedNotifications (guild playingSession)
        (getMembersInChannel talkingWorld
           (channelId \<lparr>channelId = ''talk'', type = TALKING, invite = Some ''inv''\<rparr>))
        (channelId \<lparr>channelId = ''quiet'', type = SILENCE, invite = None\<rparr>)
        (channelId \<lparr>channelId = ''talk'', type = TALKING, invite = Some ''inv''\<rparr>))
      (snd (snd silenced))"
    by (simp add: w2_def present) (simp add: playingSession_def)
  have run3: "movePlayersToTalkingChannel (fst (snd silenced)) w2 = (fst restored, snd restored)"
    by (simp add: restored_def)
  from C9_round_trip[OF talking silence apart ordinary accepted run1 notified run3]
  obtain sent where facts: "fst silenced = Inr ()" "fst (snd silenced) = playingSession"
    "fst restored = Inr ()" "requests (snd restored) = requests w2 @ sent"
    "\<forall>m\<in>set (getMembersInChannel talkingWorld
        (channelId \<lparr>channelId = ''talk'', type = TALKING, invite = Some ''inv''\<rparr>)).
        EditGuildMember (guild playingSession) m
          (channelId \<lparr>channelId = ''talk'', type = TALKING, invite = Some ''inv''\<rparr>) \<in> set sent"
    "\<forall>m\<in>set (getMembersInChannel talkingWorld
        (channelId \<lparr>channelId = ''talk'', type = TALKING, invite = Some ''inv''\<rparr>)).
        lastMove (requests (snd restored)) m =
          Some (channelId \<lparr>channelId = ''talk'', type = TALKING, invite = Some ''inv''\<rparr>)"
    by blast
  from facts(5) have "EditGuildMember ''guild'' ''alice'' ''talk'' \<in> set sent"
    and "EditGuildMember ''guild'' ''bob'' ''talk'' \<in> set sent"
    by (simp_all add: present) (simp_all add: playingSession_def)
  moreover from facts(6) have "lastMove (requests (snd restored)) ''alice'' = Some ''talk''"
    by (simp add: present)
  ultimately show ?thesis
    using facts(1-4) unfolding restored_def w2_def silenced_def by simp
qed

text \<open>
  The claim as the spec words it fails when the second reconciliation follows the first
  at once, before any notification is handled: the index still has both players in the
  TALKING channel and nobody in the SILENCE channel, so no move back is asked for.
\<close>

theorem C9_index_not_updated:
  "requests (snd (movePlayersToTalkingChannel playingSession
      (snd (snd (movePlayersToSilenceChannel (\<lambda>m. False) playingSession talkingWorld))))) =
     [EditGuildMember ''guild'' ''alice'' ''quiet'', EditGuildMember ''guild'' ''bob'' ''quiet'']"
  by (simp add: movePlayersToSilenceChannel_def movePlayersToTalkingChannel_def Let_def
        playingSession_def SILENCE_CHANNELS_def moveAllPlayers_def getMembersInChannel_def
        talkingWorld_def playingWorld_def quietWorld_def request_def promiseAll_def
        rejections_def List.map_filter_simps)


text \<open>
  The move to talking moves whoever the index has in a silence channel: a player who was
  there before the match began is moved to the TALKING channel with the others.
\<close>

lemma bystander_moved_too:
  "moves (requests (snd (movePlayersToTalkingChannel playingSession
      (dispatch (movedNotifications ''guild'' [''alice''] ''quiet'' ''talk'')
         (snd (snd (movePlayersToSilenceChannel (\<lambda>m. False) playingSession mixedWorld)))))))
   = [(''alice'', ''quiet''), (''zed'', ''talk''), (''alice'', ''talk'')]"
  by code_simp

section \<open>Properties of the administrator channels\<close>





















end
